theory Spec2Isabelle
  imports Complex_Main
begin

section \<open>JavaScript values\<close>

text \<open>
  The values the robot manager of \<^verbatim>\<open>src/robot_manager.ts\<close> handles at run time.
  A cell that \<^verbatim>\<open>csv-parse\<close> casts is a string or a number; \<^verbatim>\<open>Date.getTime\<close> of an
  invalid date is \<^verbatim>\<open>NaN\<close>. Numbers are the integers (epoch milliseconds) plus \<^verbatim>\<open>NaN\<close>;
  \<^verbatim>\<open>undefined\<close> is \<open>None\<close> of \<open>jsval option\<close>.
\<close>

datatype jsval = JStr string | JNum int | JNaN

text \<open>\<^verbatim>\<open>!!v\<close>: the empty string, \<^verbatim>\<open>0\<close>, \<^verbatim>\<open>NaN\<close> and \<^verbatim>\<open>undefined\<close> are falsy.\<close>

fun truthy :: "jsval option \<Rightarrow> bool" where
  "truthy None = False"
| "truthy (Some (JStr s)) = (s \<noteq> [])"
| "truthy (Some (JNum n)) = (n \<noteq> 0)"
| "truthy (Some JNaN) = False"

text \<open>\<^verbatim>\<open>v || undefined\<close>\<close>

definition or_undefined :: "jsval option \<Rightarrow> jsval option" where
  "or_undefined v = (if truthy v then v else None)"

text \<open>\<^verbatim>\<open>a === b\<close>: no conversion, and \<^verbatim>\<open>NaN\<close> equals nothing.\<close>

definition strict_eq :: "jsval option \<Rightarrow> jsval option \<Rightarrow> bool" where
  "strict_eq a b = (a = b \<and> a \<noteq> Some JNaN)"

text \<open>
  The number a command line argument or a default parameter gives for the duration:
  a finite double, written as the rational it is, or one of \<^verbatim>\<open>NaN\<close>,
  \<^verbatim>\<open>Infinity\<close>, \<^verbatim>\<open>-Infinity\<close>, which \<^verbatim>\<open>setMinutes\<close> treats alike.
\<close>

datatype jsnum = Num rat | NotFinite

subsection \<open>Doubles\<close>

text \<open>
  A JavaScript number is an IEEE 754 binary64 value, and the sum of two numbers is the
  double nearest to their exact sum, a tie going to the even significand. \<open>to_double x\<close>
  is the double nearest to the rational \<open>x\<close>: \<open>x\<close> is rounded to a multiple of
  \<open>2\<^bsup>e - 52\<^esup>\<close>, where \<open>2\<^sup>e \<le> \<bar>x\<bar> < 2\<^bsup>e + 1\<^esup>\<close> and \<open>e\<close> is at least \<open>-1022\<close> (the
  subnormal numbers), and a result of magnitude \<open>2\<^bsup>1024\<^esup>\<close> is infinite.
\<close>

definition sqr :: "int \<Rightarrow> int" where
  "sqr x = x * x"

function int_power :: "int \<Rightarrow> int \<Rightarrow> int" where
  "int_power b k =
     (if k \<le> 0 then 1
      else if even k then sqr (int_power b (k div 2))
      else b * sqr (int_power b (k div 2)))"
  by pat_completeness auto
termination
  by (relation "measure (\<lambda>(b, k). nat k)") auto

declare int_power.simps [simp del]

definition pow2 :: "int \<Rightarrow> rat" where
  "pow2 k = (if k < 0 then 1 / of_int (int_power 2 (- k)) else of_int (int_power 2 k))"

function bit_length :: "int \<Rightarrow> int" where
  "bit_length n = (if n \<le> 0 then 0 else 1 + bit_length (n div 2))"
  by pat_completeness auto
termination
  by (relation "measure nat") auto

declare bit_length.simps [simp del]

text \<open>The \<open>e\<close> with \<open>2\<^sup>e \<le> a < 2\<^bsup>e + 1\<^esup>\<close>, for \<open>a\<close> above 0.\<close>

definition binary_exponent :: "rat \<Rightarrow> int" where
  "binary_exponent a =
     (case quotient_of a of (p, q) \<Rightarrow>
        (let e = bit_length p - bit_length q in if pow2 e \<le> a then e else e - 1))"

definition round_half_even :: "rat \<Rightarrow> int" where
  "round_half_even y =
     (let f = \<lfloor>y\<rfloor>; r = y - of_int f
      in if r < 1 / 2 then f else if 1 / 2 < r then f + 1 else if even f then f else f + 1)"

definition to_double :: "rat \<Rightarrow> jsnum" where
  "to_double x =
     (if x = 0 then Num 0
      else (let a = \<bar>x\<bar>;
                ulp = pow2 (max (binary_exponent a) (- 1022) - 52);
                y = of_int (round_half_even (a / ulp)) * ulp
            in if pow2 1024 \<le> y then NotFinite else Num (if x < 0 then - y else y)))"

subsection \<open>Strings of values\<close>

text \<open>
  The decimal digits of a number that is not negative, and the decimal form of an integer.
  It is the text JavaScript gives a whole number up to \<open>2\<^bsup>53\<^esup>\<close> in magnitude, as every
  time value is; of a larger one JavaScript writes only the digits needed to tell it from
  the doubles next to it, and from \<open>10\<^bsup>21\<^esup>\<close> on it writes an exponent.
\<close>

definition digit_char :: "int \<Rightarrow> char" where
  "digit_char d = ''0123456789'' ! nat d"

function show_digits :: "int \<Rightarrow> string" where
  "show_digits n = (if n < 10 then [digit_char n] else show_digits (n div 10) @ [digit_char (n mod 10)])"
  by pat_completeness auto
termination
  by (relation "measure nat") auto

declare show_digits.simps [simp del]

definition show_int :: "int \<Rightarrow> string" where
  "show_int i = (if i < 0 then CHR ''-'' # show_digits (- i) else show_digits i)"

text \<open>\<^verbatim>\<open>`${v}`\<close> in a template literal.\<close>

fun to_string :: "jsval option \<Rightarrow> string" where
  "to_string None = ''undefined''"
| "to_string (Some (JStr s)) = s"
| "to_string (Some (JNum n)) = show_int n"
| "to_string (Some JNaN) = ''NaN''"

text \<open>An element inside \<^verbatim>\<open>Array.prototype.join\<close>: \<^verbatim>\<open>undefined\<close> is the empty string.\<close>

definition join_item :: "jsval option \<Rightarrow> string" where
  "join_item v = (case v of None \<Rightarrow> [] | Some _ \<Rightarrow> to_string v)"

fun join :: "string \<Rightarrow> string list \<Rightarrow> string" where
  "join sep [] = []"
| "join sep [x] = x"
| "join sep (x # y # ys) = x @ sep @ join sep (y # ys)"

section \<open>The environment: the two CSV packages, the time zone, number and date parsing\<close>

text \<open>
  \<^verbatim>\<open>CsvParser\<close> only hands over to the packages \<^verbatim>\<open>csv-parse/sync\<close> and
  \<^verbatim>\<open>csvjson-json2csv\<close>; they, the time zone of the host and the built-in
  \<^verbatim>\<open>Number\<close> and \<^verbatim>\<open>Date.parse\<close> are parameters of the model.
  An object is the ordered list of its properties.
\<close>

type_synonym row = "(string \<times> jsval) list"
type_synonym obj = "(string \<times> jsval option) list"

record env =
  csv_parse :: "string \<Rightarrow> row list option"     \<comment> \<open>\<^verbatim>\<open>parse(input, {columns: true, cast: true})\<close>, \<open>None\<close> when it throws\<close>
  csv_stringify :: "obj list \<Rightarrow> string"          \<comment> \<open>\<^verbatim>\<open>stringify\<close>\<close>
  local_tza :: "int \<Rightarrow> bool \<Rightarrow> int"              \<comment> \<open>ECMAScript's \<^verbatim>\<open>LocalTZA(t, isUTC)\<close>\<close>
  date_parse :: "string \<Rightarrow> int option"           \<comment> \<open>\<^verbatim>\<open>Date.parse\<close>, \<open>None\<close> for \<^verbatim>\<open>NaN\<close>\<close>
  to_number :: "string \<Rightarrow> jsnum"                 \<comment> \<open>\<^verbatim>\<open>Number(arg)\<close>\<close>

section \<open>Dates\<close>

text \<open>The time value arithmetic of ECMAScript's \<^verbatim>\<open>Date\<close>, on integers; \<open>None\<close> is an invalid date.\<close>

definition Day :: "int \<Rightarrow> int" where
  "Day t = t div 86400000"

definition HourFromTime :: "int \<Rightarrow> int" where
  "HourFromTime t = (t div 3600000) mod 24"

definition MinFromTime :: "int \<Rightarrow> int" where
  "MinFromTime t = (t div 60000) mod 60"

definition SecFromTime :: "int \<Rightarrow> int" where
  "SecFromTime t = (t div 1000) mod 60"

definition msFromTime :: "int \<Rightarrow> int" where
  "msFromTime t = t mod 1000"

definition MakeTime :: "int \<Rightarrow> int \<Rightarrow> int \<Rightarrow> int \<Rightarrow> int" where
  "MakeTime h m s ms = h * 3600000 + m * 60000 + s * 1000 + ms"

definition MakeDate :: "int \<Rightarrow> int \<Rightarrow> int" where
  "MakeDate day time = day * 86400000 + time"

definition TimeClip :: "int \<Rightarrow> int option" where
  "TimeClip t = (if \<bar>t\<bar> > 8640000000000000 then None else Some t)"

definition LocalTime :: "env \<Rightarrow> int \<Rightarrow> int" where
  "LocalTime e t = t + local_tza e t True"

definition UTC :: "env \<Rightarrow> int \<Rightarrow> int" where
  "UTC e t = t - local_tza e t False"

text \<open>\<^verbatim>\<open>ToIntegerOrInfinity\<close> of a finite number: truncation toward zero.\<close>

definition to_integer :: "rat \<Rightarrow> int" where
  "to_integer x = (if x < 0 then \<lceil>x\<rceil> else \<lfloor>x\<rfloor>)"

text \<open>The time value of \<^verbatim>\<open>new Date(v)\<close>.\<close>

fun new_Date :: "env \<Rightarrow> jsval option \<Rightarrow> int option" where
  "new_Date e None = None"
| "new_Date e (Some (JNum n)) = TimeClip n"
| "new_Date e (Some JNaN) = None"
| "new_Date e (Some (JStr s)) = date_parse e s"

text \<open>\<^verbatim>\<open>d.getMinutes()\<close> of a valid date.\<close>

definition getMinutes :: "env \<Rightarrow> int \<Rightarrow> int" where
  "getMinutes e t = MinFromTime (LocalTime e t)"

text \<open>\<^verbatim>\<open>d.setMinutes(m)\<close> on a valid date with time value \<open>t\<close>: the new time value.\<close>

definition setMinutes :: "env \<Rightarrow> int \<Rightarrow> jsnum \<Rightarrow> int option" where
  "setMinutes e t m =
     (case m of
        NotFinite \<Rightarrow> None
      | Num x \<Rightarrow>
          (let lt = LocalTime e t;
               date = MakeDate (Day lt)
                        (MakeTime (HourFromTime lt) (to_integer x) (SecFromTime lt) (msFromTime lt))
           in TimeClip (UTC e date)))"

text \<open>\<^verbatim>\<open>d.getTime()\<close>\<close>

definition getTime :: "int option \<Rightarrow> jsval" where
  "getTime d = (case d of None \<Rightarrow> JNaN | Some t \<Rightarrow> JNum t)"

definition pad2 :: "int \<Rightarrow> string" where
  "pad2 n = (if n < 10 then CHR ''0'' # show_int n else show_int n)"

text \<open>\<^verbatim>\<open>d.toTimeString().slice(0, 8)\<close>: the local time of day, or the first eight characters of \<^verbatim>\<open>Invalid Date\<close>.\<close>

definition time_hms :: "env \<Rightarrow> int option \<Rightarrow> string" where
  "time_hms e d =
     (case d of
        None \<Rightarrow> ''Invalid ''
      | Some t \<Rightarrow>
          (let lt = LocalTime e t
           in pad2 (HourFromTime lt) @ '':'' @ pad2 (MinFromTime lt) @ '':'' @ pad2 (SecFromTime lt)))"

section \<open>Robot records and the state of a run\<close>

text \<open>
  \<^verbatim>\<open>RobotData\<close> as \<^verbatim>\<open>parseRobotData\<close> builds it: the properties of the parsed row other
  than the three optional ones (\<^verbatim>\<open>...required\<close>: \<^verbatim>\<open>id\<close>, \<^verbatim>\<open>alias\<close>, \<^verbatim>\<open>type\<close>), and the three
  optional ones.
\<close>

record robot =
  required :: row
  used_by :: "jsval option"
  start_time :: "jsval option"
  end_time :: "jsval option"

definition robot_prop :: "robot \<Rightarrow> string \<Rightarrow> jsval option" where
  "robot_prop r k = map_of (required r) k"

definition robot_object :: "robot \<Rightarrow> obj" where
  "robot_object r =
     map (\<lambda>(k, v). (k, Some v)) (required r) @
     [(''used_by'', used_by r), (''start_time'', start_time r), (''end_time'', end_time r)]"

datatype error = ReadError | WriteError | ParseError | Error string

text \<open>
  \<open>data\<close> is \<^verbatim>\<open>this.data\<close>; a robot object is known by its position in it. The rest is the
  world of one run: the file \<^verbatim>\<open>./src/data.csv\<close> (\<open>None\<close> when it cannot be read), whether
  it can be written, what was written to it, the lines printed, and the clock, read once
  by every \<^verbatim>\<open>new Date()\<close>.
\<close>

record state =
  data :: "robot list"
  storage :: "string option"
  writable :: bool
  written :: "string list"
  stdout :: "string list"
  clock :: "nat \<Rightarrow> int"
  ticks :: nat

definition DEFAULT_DURATION_MIN :: jsnum where
  "DEFAULT_DURATION_MIN = Num 60"

text \<open>A parameter with the default value \<^verbatim>\<open>DEFAULT_DURATION_MIN\<close>.\<close>

definition durationMin_or_default :: "jsnum option \<Rightarrow> jsnum" where
  "durationMin_or_default d = (case d of None \<Rightarrow> DEFAULT_DURATION_MIN | Some x \<Rightarrow> x)"

text \<open>\<^verbatim>\<open>new Date()\<close>: the current time, and the clock read once more.\<close>

definition new_Date_now :: "state \<Rightarrow> int \<times> state" where
  "new_Date_now s = (clock s (ticks s), s\<lparr>ticks := Suc (ticks s)\<rparr>)"

section \<open>The robot manager\<close>

definition printMessage :: "string \<Rightarrow> state \<Rightarrow> state" where
  "printMessage message s = s\<lparr>stdout := stdout s @ [message]\<rparr>"

definition getRobotData :: "state \<Rightarrow> error + string" where
  "getRobotData s = (case storage s of None \<Rightarrow> Inl ReadError | Some txt \<Rightarrow> Inr txt)"

definition updateRobotData :: "env \<Rightarrow> state \<Rightarrow> error + state" where
  "updateRobotData e s =
     (let updatedInput = csv_stringify e (map robot_object (data s))
      in if writable s
         then Inr (s\<lparr>storage := Some updatedInput, written := written s @ [updatedInput]\<rparr>)
         else Inl WriteError)"

definition optional_keys :: "string list" where
  "optional_keys = [''used_by'', ''start_time'', ''end_time'']"

text \<open>The function \<^verbatim>\<open>parseRobotData\<close> maps over the parsed rows.\<close>

definition toRobotData :: "row \<Rightarrow> robot" where
  "toRobotData rw =
     \<lparr> required = filter (\<lambda>(k, v). k \<notin> set optional_keys) rw,
       used_by = or_undefined (map_of rw ''used_by''),
       start_time = or_undefined (map_of rw ''start_time''),
       end_time = or_undefined (map_of rw ''end_time'') \<rparr>"

definition parseRobotData :: "env \<Rightarrow> string \<Rightarrow> error + robot list" where
  "parseRobotData e input =
     (case csv_parse e input of
        None \<Rightarrow> Inl ParseError
      | Some rows \<Rightarrow> Inr (map toRobotData rows))"

text \<open>The 4-byte UTF-8 encoding of the gem character U+1F48E.\<close>

definition gem :: string where
  "gem = [CHR 0xF0, CHR 0x9F, CHR 0x92, CHR 0x8E]"

definition usage_line :: "env \<Rightarrow> robot \<Rightarrow> string" where
  "usage_line e r =
     (let isNotUsed = \<not> truthy (used_by r);
          usingMessage =
            ''['' @ to_string (robot_prop r ''type'') @ ''] '' @ to_string (robot_prop r ''id'') @
            ''('' @ to_string (robot_prop r ''alias'') @ '') is used by '' @
            gem @ to_string (used_by r) @ gem @ '' '' @
            time_hms e (new_Date e (start_time r)) @ '' - '' @
            time_hms e (new_Date e (end_time r));
          notUsingMessage =
            ''['' @ to_string (robot_prop r ''type'') @ ''] '' @ to_string (robot_prop r ''id'') @
            ''('' @ to_string (robot_prop r ''alias'') @ '') is not used''
      in if isNotUsed then notUsingMessage else usingMessage)"

definition printRobotUsageMessage :: "env \<Rightarrow> robot list \<Rightarrow> state \<Rightarrow> state" where
  "printRobotUsageMessage e rs s = printMessage (join [CHR 0x0A] (map (usage_line e) rs)) s"

text \<open>\<^verbatim>\<open>Array.prototype.find\<close> over \<^verbatim>\<open>this.data\<close>: the position of the first object that passes.\<close>

definition find_ref :: "(robot \<Rightarrow> bool) \<Rightarrow> robot list \<Rightarrow> nat option" where
  "find_ref P ds = find (\<lambda>i. P (ds ! i)) [0..<length ds]"

definition pickRobotsByType :: "jsval option \<Rightarrow> robot list \<Rightarrow> nat list" where
  "pickRobotsByType ty ds = filter (\<lambda>i. strict_eq (robot_prop (ds ! i) ''type'') ty) [0..<length ds]"

definition pickFreeRobot :: "jsval option \<Rightarrow> robot list \<Rightarrow> nat option" where
  "pickFreeRobot ty ds = find (\<lambda>i. \<not> truthy (used_by (ds ! i))) (pickRobotsByType ty ds)"

text \<open>\<^verbatim>\<open>robotTypes.includes\<close> compares with SameValueZero, under which \<^verbatim>\<open>NaN\<close> equals itself.\<close>

definition getAllRobotTypes :: "robot list \<Rightarrow> jsval option list" where
  "getAllRobotTypes ds =
     fold (\<lambda>r robotTypes.
             if robot_prop r ''type'' \<notin> set robotTypes then robotTypes @ [robot_prop r ''type''] else robotTypes)
       ds []"

text \<open>
  \<^verbatim>\<open>now.getMinutes() + durationMin\<close> is a sum of doubles; \<^verbatim>\<open>setMinutes\<close> then takes its
  integer part.
\<close>

definition makeDurationTime :: "env \<Rightarrow> jsnum option \<Rightarrow> state \<Rightarrow> (jsval \<times> jsval) \<times> state" where
  "makeDurationTime e durationMin s =
     (let d = durationMin_or_default durationMin;
          (now, s1) = new_Date_now s;
          (end0, s2) = new_Date_now s1;
          m = (case d of NotFinite \<Rightarrow> NotFinite | Num x \<Rightarrow> to_double (of_int (getMinutes e now) + x));
          end = setMinutes e end0 m
      in ((getTime (Some now), getTime end), s2))"

definition useRobot :: "env \<Rightarrow> nat \<Rightarrow> jsval option \<Rightarrow> jsnum option \<Rightarrow> state \<Rightarrow> error + state" where
  "useRobot e robot user durationMin s =
     (let d = durationMin_or_default durationMin;
          ((startTime, endTime), s1) = makeDurationTime e (Some d) s;
          s2 = s1\<lparr>data := (data s1)[robot := (data s1 ! robot)
                  \<lparr>used_by := user, start_time := Some startTime, end_time := Some endTime\<rparr>]\<rparr>
      in case updateRobotData e s2 of
           Inl err \<Rightarrow> Inl err
         | Inr s3 \<Rightarrow> Inr (printRobotUsageMessage e [data s3 ! robot] s3))"

definition useRobotByType :: "env \<Rightarrow> jsval option \<Rightarrow> jsval option \<Rightarrow> jsnum option \<Rightarrow> state \<Rightarrow> error + state" where
  "useRobotByType e ty user durationMin s =
     (let d = durationMin_or_default durationMin
      in case pickFreeRobot ty (data s) of
           None \<Rightarrow> Inr (printMessage ''availableRobot is not found'' s)
         | Some availableRobot \<Rightarrow> useRobot e availableRobot user (Some d) s)"

definition useRobotById :: "env \<Rightarrow> jsval option \<Rightarrow> jsval option \<Rightarrow> jsnum option \<Rightarrow> state \<Rightarrow> error + state" where
  "useRobotById e ident user durationMin s =
     (let d = durationMin_or_default durationMin
      in case find_ref (\<lambda>robot. strict_eq (robot_prop robot ''id'') ident) (data s) of
           None \<Rightarrow> Inr (printMessage (''Can not find robot id '' @ to_string ident) s)
         | Some foundRobot \<Rightarrow>
             if truthy (used_by (data s ! foundRobot))
             then Inr (printRobotUsageMessage e [data s ! foundRobot] s)
             else useRobot e foundRobot user (Some d) s)"

definition useRobotByAlias :: "env \<Rightarrow> jsval option \<Rightarrow> jsval option \<Rightarrow> jsnum option \<Rightarrow> state \<Rightarrow> error + state" where
  "useRobotByAlias e alias user durationMin s =
     (let d = durationMin_or_default durationMin
      in case find_ref (\<lambda>robot. strict_eq (robot_prop robot ''alias'') alias) (data s) of
           None \<Rightarrow> Inr (printMessage (''Can not find robot alias '' @ to_string alias) s)
         | Some foundRobot \<Rightarrow>
             if truthy (used_by (data s ! foundRobot))
             then Inr (printRobotUsageMessage e [data s ! foundRobot] s)
             else useRobot e foundRobot user (Some d) s)"

definition printRobotsByType :: "env \<Rightarrow> jsval option \<Rightarrow> state \<Rightarrow> state" where
  "printRobotsByType e ty s =
     (let pickedRobots = pickRobotsByType ty (data s)
      in if pickedRobots = []
         then printMessage
                (''unavailable type: ('' @ to_string ty @ '') from ['' @
                 join '','' (map join_item (getAllRobotTypes (data s))) @ '']'') s
         else printRobotUsageMessage e (map (\<lambda>i. data s ! i) pickedRobots) s)"

definition printAllRobots :: "env \<Rightarrow> state \<Rightarrow> state" where
  "printAllRobots e s =
     fold (\<lambda>ty s'. printRobotUsageMessage e (map (\<lambda>i. data s' ! i) (pickRobotsByType ty (data s'))) s')
       (getAllRobotTypes (data s)) s"

text \<open>Whether \<^verbatim>\<open>now > new Date(robot.end_time)\<close>; a comparison with an invalid date is false.\<close>

definition expired :: "env \<Rightarrow> int \<Rightarrow> robot \<Rightarrow> bool" where
  "expired e now r = (case new_Date e (end_time r) of None \<Rightarrow> False | Some endTime \<Rightarrow> now > endTime)"

definition clear_robot :: "robot \<Rightarrow> robot" where
  "clear_robot r = r\<lparr>used_by := None, start_time := None, end_time := None\<rparr>"

text \<open>The body of the \<^verbatim>\<open>forEach\<close> of \<^verbatim>\<open>checkAndClearExpiredRobots\<close>, on the robot at position \<open>i\<close>.\<close>

definition clear_if_expired :: "env \<Rightarrow> int \<Rightarrow> nat \<Rightarrow> bool \<times> robot list \<Rightarrow> bool \<times> robot list" where
  "clear_if_expired e now i acc =
     (case acc of (existExpiredRobot, ds) \<Rightarrow>
        if expired e now (ds ! i) then (True, ds[i := clear_robot (ds ! i)])
        else (existExpiredRobot, ds))"

definition checkAndClearExpiredRobots :: "env \<Rightarrow> state \<Rightarrow> bool \<times> state" where
  "checkAndClearExpiredRobots e s =
     (let (now, s1) = new_Date_now s;
          usedRobots = filter (\<lambda>i. truthy (used_by (data s1 ! i))) [0..<length (data s1)];
          (existExpiredRobot, ds) = fold (clear_if_expired e now) usedRobots (False, data s1)
      in (existExpiredRobot, s1\<lparr>data := ds\<rparr>))"

definition loadData :: "env \<Rightarrow> state \<Rightarrow> error + state" where
  "loadData e s =
     (case getRobotData s of
        Inl err \<Rightarrow> Inl err
      | Inr txt \<Rightarrow>
          (case parseRobotData e txt of
             Inl err \<Rightarrow> Inl err
           | Inr ds \<Rightarrow>
               (let (exist, s1) = checkAndClearExpiredRobots e (s\<lparr>data := ds\<rparr>)
                in if exist then updateRobotData e s1 else Inr s1)))"

section \<open>The command line\<close>

text \<open>\<^verbatim>\<open>argv[i]\<close>, \<^verbatim>\<open>undefined\<close> past the end.\<close>

definition arg_at :: "string list \<Rightarrow> nat \<Rightarrow> string option" where
  "arg_at argv i = (if i < length argv then Some (argv ! i) else None)"

text \<open>\<^verbatim>\<open>arg3 ? Number(arg3) : undefined\<close>\<close>

definition duration_arg :: "env \<Rightarrow> string option \<Rightarrow> jsnum option" where
  "duration_arg e arg3 =
     (case arg3 of
        None \<Rightarrow> None
      | Some a \<Rightarrow> if a \<noteq> [] then Some (to_number e a) else None)"

definition main :: "env \<Rightarrow> string list \<Rightarrow> state \<Rightarrow> error + state" where
  "main e argv s =
     (case loadData e (s\<lparr>data := []\<rparr>) of
        Inl err \<Rightarrow> Inl err
      | Inr s1 \<Rightarrow>
          (let functionName = arg_at argv 2;
               arg1 = map_option JStr (arg_at argv 3);
               arg2 = map_option JStr (arg_at argv 4);
               arg3 = arg_at argv 5
           in if functionName = Some ''check_all'' then Inr (printAllRobots e s1)
              else if functionName = Some ''check_type'' then Inr (printRobotsByType e arg1 s1)
              else if functionName = Some ''use_robot_by_type''
                then useRobotByType e arg1 arg2 (duration_arg e arg3) s1
              else if functionName = Some ''use_robot_by_id''
                then useRobotById e arg1 arg2 (duration_arg e arg3) s1
              else if functionName = Some ''use_robot_by_alias''
                then useRobotByAlias e arg1 arg2 (duration_arg e arg3) s1
              else Inl (Error ''unavailable function name'')))"

section \<open>The tabular codec\<close>

text \<open>
  Modelled from the spec: the tabular codec of section 4.1, \<^verbatim>\<open>parse\<close> and \<^verbatim>\<open>stringify\<close>. The
  repository has only the wrapper \<^verbatim>\<open>CsvParser\<close>; the packages \<^verbatim>\<open>csv-parse\<close> and
  \<^verbatim>\<open>csvjson-json2csv\<close> that do the work are not part of it. The text is comma-separated,
  one line per row, as section 6 has it. The round trip is asked for any string, so a
  field that holds a comma, a double quote or a line break is written between double
  quotes, with its double quotes doubled, as comma-separated text usually has it.
\<close>

text \<open>Modelled from the spec: a cell that \<^verbatim>\<open>parse\<close> gives, a string or a number.\<close>

datatype cell = CStr string | CNum rat

text \<open>
  Modelled from the spec: the decimal digits of a numeric-looking string, the whole number
  they write, and the powers of ten.
\<close>

definition is_digit :: "char \<Rightarrow> bool" where
  "is_digit c = (c \<in> set ''0123456789'')"

definition digit_val :: "char \<Rightarrow> int" where
  "digit_val c = of_char c - 48"

definition read_digits :: "string \<Rightarrow> int" where
  "read_digits s = foldl (\<lambda>acc c. acc * 10 + digit_val c) 0 s"

definition pow10 :: "int \<Rightarrow> rat" where
  "pow10 k = (if k < 0 then 1 / of_int (int_power 10 (- k)) else of_int (int_power 10 k))"

text \<open>
  Modelled from the spec: white space (space, tab, line feed, vertical tab, form feed and
  carriage return), and a string without the white space at its ends.
\<close>

definition is_space :: "char \<Rightarrow> bool" where
  "is_space c = (c \<in> set [CHR 0x20, CHR 0x09, CHR 0x0A, CHR 0x0B, CHR 0x0C, CHR 0x0D])"

definition trim :: "string \<Rightarrow> string" where
  "trim s = rev (dropWhile is_space (rev (dropWhile is_space s)))"

text \<open>Modelled from the spec: the sign in front of a literal, and what follows it.\<close>

definition split_sign :: "string \<Rightarrow> int \<times> string" where
  "split_sign s =
     (case s of
        [] \<Rightarrow> (1, [])
      | c # cs \<Rightarrow> if c = CHR ''-'' then (- 1, cs) else if c = CHR ''+'' then (1, cs) else (1, s))"

text \<open>
  Modelled from the spec: the exponent part of a decimal literal, or nothing: its value,
  \<open>None\<close> when it is neither.
\<close>

definition exponent_value :: "string \<Rightarrow> int option" where
  "exponent_value s =
     (case s of
        [] \<Rightarrow> Some 0
      | c # cs \<Rightarrow>
          if c = CHR ''e'' \<or> c = CHR ''E''
          then (case split_sign cs of
                  (sg, ds) \<Rightarrow> if ds \<noteq> [] \<and> list_all is_digit ds then Some (sg * read_digits ds) else None)
          else None)"

text \<open>
  Modelled from the spec: "numeric-looking strings become numbers; everything else
  remains string". A string looks numeric when, white space at its ends apart, it is a
  decimal literal as \<^verbatim>\<open>Number\<close> reads one: a sign or none, digits with or without a point
  among them, with or without an exponent, as \<^verbatim>\<open>30\<close>, \<^verbatim>\<open>007\<close>, \<^verbatim>\<open>-1.5\<close>, \<^verbatim>\<open>+5\<close>, \<^verbatim>\<open>.5\<close>
  and \<^verbatim>\<open>1e3\<close> are. \<open>numeric_value\<close> is the number it denotes.
\<close>

definition numeric_value :: "string \<Rightarrow> rat option" where
  "numeric_value s =
     (case split_sign (trim s) of
        (sg, s1) \<Rightarrow>
          (let ip = takeWhile is_digit s1;
               s2 = dropWhile is_digit s1;
               point = (s2 \<noteq> [] \<and> hd s2 = CHR ''.'');
               fp = (if point then takeWhile is_digit (tl s2) else []);
               s3 = (if point then dropWhile is_digit (tl s2) else s2)
           in if ip = [] \<and> fp = [] then None
              else (case exponent_value s3 of
                      None \<Rightarrow> None
                    | Some ex \<Rightarrow>
                        Some (of_int (sg * read_digits (ip @ fp)) * pow10 (ex - int (length fp))))))"

definition numeric_looking :: "string \<Rightarrow> bool" where
  "numeric_looking s = (numeric_value s \<noteq> None)"

definition cast :: "string \<Rightarrow> cell" where
  "cast s = (case numeric_value s of None \<Rightarrow> CStr s | Some x \<Rightarrow> CNum x)"

text \<open>
  Modelled from the spec: "each value rendered as its natural textual form (empty string
  for absent optional fields)".
\<close>

definition cell_text :: "jsval option \<Rightarrow> string" where
  "cell_text v = (case v of None \<Rightarrow> [] | Some _ \<Rightarrow> to_string v)"

text \<open>Modelled from the spec: a field as it is written, between double quotes when it has to be.\<close>

definition needs_quotes :: "string \<Rightarrow> bool" where
  "needs_quotes s = list_ex (\<lambda>c. c \<in> set [CHR '','', CHR 0x22, CHR 0x0A, CHR 0x0D]) s"

definition field_text :: "string \<Rightarrow> string" where
  "field_text s =
     (if needs_quotes s
      then CHR 0x22 # concat (map (\<lambda>c. if c = CHR 0x22 then [c, c] else [c]) s) @ [CHR 0x22]
      else s)"

text \<open>
  Modelled from the spec: \<^verbatim>\<open>stringify\<close> "emits a header line from the first record's keys
  followed by one line per record".
\<close>

definition spec_stringify :: "obj list \<Rightarrow> string" where
  "spec_stringify records =
     (case records of
        [] \<Rightarrow> []
      | r # _ \<Rightarrow>
          join [CHR 0x0A]
            (join '','' (map (\<lambda>(k, v). field_text k) r) #
             map (\<lambda>r. join '','' (map (\<lambda>(k, v). field_text (cell_text v)) r)) records))"

text \<open>
  Modelled from the spec: the rows of a text and the fields of each row, read from left
  to right. The reader is at the start of a field, inside a field without quotes, inside
  a quoted field, or after a double quote met inside a quoted field, which closes the
  field unless another double quote follows. A double quote inside a field without
  quotes, a quoted field that is not closed, and anything but a separator after a closed
  quoted field are malformed (\<open>None\<close>).
\<close>

datatype scan_mode = FieldStart | Bare | InQuotes | AfterQuote

fun push :: "char \<Rightarrow> string list list option \<Rightarrow> string list list option" where
  "push c (Some ((f # fs) # rs)) = Some (((c # f) # fs) # rs)"
| "push c _ = None"

fun new_field :: "string list list option \<Rightarrow> string list list option" where
  "new_field (Some (fs # rs)) = Some (([] # fs) # rs)"
| "new_field _ = None"

definition new_record :: "string list list option \<Rightarrow> string list list option" where
  "new_record r = map_option (\<lambda>rs. [[]] # rs) r"

fun scan :: "scan_mode \<Rightarrow> string \<Rightarrow> string list list option" where
  "scan m [] = (if m = InQuotes then None else Some [[[]]])"
| "scan m (c # cs) =
     (if m = InQuotes
      then (if c = CHR 0x22 then scan AfterQuote cs else push c (scan InQuotes cs))
      else if c = CHR '','' then new_field (scan FieldStart cs)
      else if c = CHR 0x0A then new_record (scan FieldStart cs)
      else if c = CHR 0x22
        then (if m = FieldStart then scan InQuotes cs
              else if m = AfterQuote then push c (scan InQuotes cs)
              else None)
      else if m = AfterQuote then None
      else push c (scan Bare cs))"

text \<open>
  Modelled from the spec: \<^verbatim>\<open>parse\<close> "splits the text into a header row and data rows
  (first row = field names), builds one mapping per data row keyed by header names",
  casts every cell, and fails on malformed text and on inconsistent column counts
  (\<open>None\<close>).
\<close>

definition spec_parse :: "string \<Rightarrow> (string \<times> cell) list list option" where
  "spec_parse input =
     (case scan FieldStart input of
        None \<Rightarrow> None
      | Some [] \<Rightarrow> None
      | Some (header # rows) \<Rightarrow>
          if list_all (\<lambda>cells. length cells = length header) rows
          then Some (map (\<lambda>cells. zip header (map cast cells)) rows)
          else None)"

section \<open>Notions the properties are stated with\<close>

text \<open>What \<^verbatim>\<open>checkAndClearExpiredRobots\<close> does to one robot at the time \<open>now\<close>.\<close>

definition clear_one :: "env \<Rightarrow> int \<Rightarrow> robot \<Rightarrow> robot" where
  "clear_one e now r = (if truthy (used_by r) \<and> expired e now r then clear_robot r else r)"

text \<open>
  A robot is either fully free or fully reserved: \<^verbatim>\<open>used_by\<close> is set exactly when
  \<^verbatim>\<open>start_time\<close> and \<^verbatim>\<open>end_time\<close> both are. The code's test for "set" is truthiness.
\<close>

definition reservation_invariant :: "robot \<Rightarrow> bool" where
  "reservation_invariant r = (truthy (used_by r) = (truthy (start_time r) \<and> truthy (end_time r)))"

text \<open>
  An optional field as \<^verbatim>\<open>parseRobotData\<close> leaves it: absent, or a truthy value. For such
  a field "absent" and "not set" are the same.
\<close>

definition normalised :: "robot \<Rightarrow> bool" where
  "normalised r =
     ((used_by r = None \<or> truthy (used_by r)) \<and>
      (start_time r = None \<or> truthy (start_time r)) \<and>
      (end_time r = None \<or> truthy (end_time r)))"

definition free_of_type :: "jsval option \<Rightarrow> robot \<Rightarrow> bool" where
  "free_of_type ty r = (strict_eq (robot_prop r ''type'') ty \<and> used_by r = None)"

text \<open>The five commands of the \<^verbatim>\<open>switch\<close> in \<^verbatim>\<open>main\<close>.\<close>

definition commands :: "string list" where
  "commands = [''check_all'', ''check_type'', ''use_robot_by_type'', ''use_robot_by_id'', ''use_robot_by_alias'']"

section \<open>A sample run\<close>

text \<open>
  A storage of two robots of type \<^verbatim>\<open>arm\<close>, \<^verbatim>\<open>R1\<close> free and \<^verbatim>\<open>R2\<close> reserved by
  \<^verbatim>\<open>bob\<close> until the time 2000, in the zone UTC. The sample stringifier writes the
  values of each object on one line.
\<close>

definition sample_rows :: "row list" where
  "sample_rows =
     [[(''id'', JStr ''R1''), (''alias'', JStr ''a1''), (''type'', JStr ''arm''),
       (''used_by'', JStr []), (''start_time'', JStr []), (''end_time'', JStr [])],
      [(''id'', JStr ''R2''), (''alias'', JStr ''a2''), (''type'', JStr ''arm''),
       (''used_by'', JStr ''bob''), (''start_time'', JNum 400), (''end_time'', JNum 2000)]]"

text \<open>The row of \<^verbatim>\<open>R1\<close> with a stored start time 0.\<close>

definition zero_row :: row where
  "zero_row =
     [(''id'', JStr ''R1''), (''alias'', JStr ''a1''), (''type'', JStr ''arm''),
      (''used_by'', JStr []), (''start_time'', JNum 0), (''end_time'', JStr [])]"

definition sample_stringify :: "obj list \<Rightarrow> string" where
  "sample_stringify os = join [CHR 0x0A] (map (\<lambda>ob. join '','' (map (\<lambda>(k, v). join_item v) ob)) os)"

definition sample_env :: env where
  "sample_env =
     \<lparr> csv_parse = (\<lambda>txt. if txt = ''data'' then Some sample_rows else None),
       csv_stringify = sample_stringify,
       local_tza = (\<lambda>t isUTC. 0),
       date_parse = (\<lambda>s. None),
       to_number = (\<lambda>a. if a = ''30'' then Num 30 else if a = ''1.5'' then Num (3 / 2) else NotFinite) \<rparr>"

definition sample_state :: "int \<Rightarrow> state" where
  "sample_state now =
     \<lparr> data = [], storage = Some ''data'', writable = True, written = [], stdout = [],
       clock = (\<lambda>n. now), ticks = 0 \<rparr>"


definition R1 :: robot where
  "R1 = \<lparr> required = [(''id'', JStr ''R1''), (''alias'', JStr ''a1''), (''type'', JStr ''arm'')],
          used_by = None, start_time = None, end_time = None \<rparr>"

definition R2 :: robot where
  "R2 = \<lparr> required = [(''id'', JStr ''R2''), (''alias'', JStr ''a2''), (''type'', JStr ''arm'')],
          used_by = Some (JStr ''bob''), start_time = Some (JNum 400), end_time = Some (JNum 2000) \<rparr>"

section \<open>Helper lemmas\<close>

subsection \<open>Doubles\<close>








subsection \<open>Lists, dates and reservations\<close>

lemma find_upt_Some:
  "find Q [0..<n] = Some i \<longleftrightarrow> (i < n \<and> Q i \<and> (\<forall>j<i. \<not> Q j))"
  by (auto simp: find_Some_iff)

lemma find_upt_None:
  "find Q [0..<n] = None \<longleftrightarrow> (\<forall>i<n. \<not> Q i)"
  by (auto simp: find_None_iff)

lemma find_filter: "find Q (filter P xs) = find (\<lambda>x. P x \<and> Q x) xs"
  by (induction xs) auto

lemma find_ref_Some:
  "find_ref P ds = Some i \<longleftrightarrow> (i < length ds \<and> P (ds ! i) \<and> (\<forall>j<i. \<not> P (ds ! j)))"
  unfolding find_ref_def by (rule find_upt_Some)

lemma find_ref_None:
  "find_ref P ds = None \<longleftrightarrow> (\<forall>r\<in>set ds. \<not> P r)"
  unfolding find_ref_def by (simp add: find_upt_None all_set_conv_all_nth)

lemma pickFreeRobot_find_ref:
  "pickFreeRobot ty ds =
     find_ref (\<lambda>r. strict_eq (robot_prop r ''type'') ty \<and> \<not> truthy (used_by r)) ds"
  unfolding pickFreeRobot_def pickRobotsByType_def find_ref_def by (simp add: find_filter)

lemma expired_clear_robot: "\<not> expired e now (clear_robot r)"
  by (simp add: expired_def clear_robot_def)

lemma clear_if_expired_step:
  "clear_if_expired e now i (ex, ds) =
     (if expired e now (ds ! i) then (True, ds[i := clear_robot (ds ! i)]) else (ex, ds))"
  by (simp add: clear_if_expired_def)

lemma clear_fold:
  "fold (clear_if_expired e now) is (ex, ds) = (ex', ds') \<Longrightarrow> \<forall>i\<in>set is. i < length ds \<Longrightarrow>
     length ds' = length ds \<and>
     (ex' \<longleftrightarrow> ex \<or> (\<exists>i\<in>set is. expired e now (ds ! i))) \<and>
     (\<forall>j<length ds. ds' ! j =
        (if j \<in> set is \<and> expired e now (ds ! j) then clear_robot (ds ! j) else ds ! j))"
proof (induction "is" arbitrary: ex ds)
  case Nil
  then show ?case by simp
next
  case (Cons i "is")
  show ?case
  proof (cases "expired e now (ds ! i)")
    case True
    with Cons.prems
    have "fold (clear_if_expired e now) is (True, ds[i := clear_robot (ds ! i)]) = (ex', ds')"
      by (simp add: clear_if_expired_step)
    from Cons.IH [OF this] True Cons.prems(2) show ?thesis
      by (auto simp: nth_list_update expired_clear_robot)
  next
    case False
    with Cons.prems have "fold (clear_if_expired e now) is (ex, ds) = (ex', ds')"
      by (simp add: clear_if_expired_step)
    from Cons.IH [OF this] False Cons.prems(2) show ?thesis
      by auto
  qed
qed

lemma checkAndClearExpiredRobots_eq:
  "checkAndClearExpiredRobots e s =
     (\<exists>r\<in>set (data s). truthy (used_by r) \<and> expired e (clock s (ticks s)) r,
      s\<lparr>ticks := Suc (ticks s), data := map (clear_one e (clock s (ticks s))) (data s)\<rparr>)"
proof -
  define now where "now = clock s (ticks s)"
  define used where "used = filter (\<lambda>i. truthy (used_by (data s ! i))) [0..<length (data s)]"
  obtain ex ds where f: "fold (clear_if_expired e now) used (False, data s) = (ex, ds)"
    by (cases "fold (clear_if_expired e now) used (False, data s)")
  have rng: "\<forall>i\<in>set used. i < length (data s)"
    by (simp add: used_def)
  note c = clear_fold [OF f rng]
  have ex: "ex \<longleftrightarrow> (\<exists>r\<in>set (data s). truthy (used_by r) \<and> expired e now r)"
  proof
    assume ex
    with c obtain i where "i \<in> set used" "expired e now (data s ! i)" by auto
    then show "\<exists>r\<in>set (data s). truthy (used_by r) \<and> expired e now r"
      by (auto simp: used_def intro!: bexI [of _ "data s ! i"])
  next
    assume "\<exists>r\<in>set (data s). truthy (used_by r) \<and> expired e now r"
    then obtain i where i: "i < length (data s)" "truthy (used_by (data s ! i))"
        "expired e now (data s ! i)"
      by (auto simp: in_set_conv_nth)
    then have "i \<in> set used" by (simp add: used_def)
    with c i(3) show ex by auto
  qed
  have ds: "ds = map (clear_one e now) (data s)"
    using c by (intro nth_equalityI) (auto simp: used_def clear_one_def)
  show ?thesis
    using f ex ds
    by (simp add: checkAndClearExpiredRobots_def new_Date_now_def now_def [symmetric]
        used_def [symmetric])
qed

lemma clear_one_not_expired:
  "truthy (used_by (clear_one e now r)) \<Longrightarrow> \<not> expired e now (clear_one e now r)"
  by (auto simp: clear_one_def clear_robot_def)

lemma sample_parse: "map toRobotData sample_rows = [R1, R2]"
  by (simp add: sample_rows_def toRobotData_def R1_def R2_def optional_keys_def or_undefined_def)

text \<open>The records \<^verbatim>\<open>loadData\<close> builds are normalised.\<close>

lemma normalised_toRobotData: "normalised (toRobotData rw)"
  by (simp add: normalised_def toRobotData_def or_undefined_def)

lemma normalised_parseRobotData:
  "parseRobotData e txt = Inr ds \<Longrightarrow> r \<in> set ds \<Longrightarrow> normalised r"
  by (auto simp: parseRobotData_def normalised_toRobotData split: option.splits)

lemma normalised_clear_one: "normalised r \<Longrightarrow> normalised (clear_one e now r)"
  by (simp add: normalised_def clear_one_def clear_robot_def)

lemma map_clear_one_id:
  "\<not> (\<exists>r\<in>set ds. truthy (used_by r) \<and> expired e now r) \<Longrightarrow> map (clear_one e now) ds = ds"
  by (intro map_idI) (auto simp: clear_one_def)

lemma map_of_filter_neq:
  "map_of (filter (\<lambda>(k', v). k' \<noteq> k) rw) k' = (if k' = k then None else map_of rw k')"
  by (induction rw) auto

lemma filter_required_neq:
  "k \<in> set optional_keys \<Longrightarrow>
     filter (\<lambda>(k', v). k' \<notin> set optional_keys) (filter (\<lambda>(k', v). k' \<noteq> k) rw) =
     filter (\<lambda>(k', v). k' \<notin> set optional_keys) rw"
  by (induction rw) auto

lemma or_undefined_without_falsy:
  assumes "map_of rw k = Some v" and "\<not> truthy (Some v)"
  shows "or_undefined (map_of (filter (\<lambda>(k', v'). k' \<noteq> k) rw) k') = or_undefined (map_of rw k')"
  using assms by (simp add: map_of_filter_neq or_undefined_def)

lemma toRobotData_without_falsy:
  assumes "k \<in> set optional_keys" and "map_of rw k = Some v" and "\<not> truthy (Some v)"
  shows "toRobotData rw = toRobotData (filter (\<lambda>(k', v'). k' \<noteq> k) rw)"
  unfolding toRobotData_def
  by (simp only: filter_required_neq [OF assms(1)] or_undefined_without_falsy [OF assms(2,3)])







lemma default_duration:
  "durationMin_or_default None = Num 60"
  "durationMin_or_default (Some x) = x"
  by (simp_all add: durationMin_or_default_def DEFAULT_DURATION_MIN_def)

lemma reservation_invariant_toRobotData:
  "reservation_invariant (toRobotData rw) \<longleftrightarrow>
     (truthy (map_of rw ''used_by'') \<longleftrightarrow>
      truthy (map_of rw ''start_time'') \<and> truthy (map_of rw ''end_time''))"
  by (simp add: reservation_invariant_def toRobotData_def or_undefined_def)

lemma reservation_invariant_clear_one:
  "reservation_invariant r \<Longrightarrow> reservation_invariant (clear_one e now r)"
  by (simp add: reservation_invariant_def clear_one_def clear_robot_def)

lemma useRobot_data:
  assumes "useRobot e robot user durationMin s = Inr s'"
    and "fst (makeDurationTime e durationMin s) = (startTime, endTime)"
  shows "data s' = (data s)[robot := (data s ! robot)
           \<lparr>used_by := user, start_time := Some startTime, end_time := Some endTime\<rparr>]"
proof -
  have d: "data (snd (makeDurationTime e d s)) = data s" for d
    by (simp add: makeDurationTime_def new_Date_now_def Let_def split: prod.splits)
  have m: "makeDurationTime e (Some (durationMin_or_default durationMin)) s =
           makeDurationTime e durationMin s"
    by (simp add: makeDurationTime_def default_duration durationMin_or_default_def
        split: option.splits)
  obtain s1 where s1: "makeDurationTime e durationMin s = ((startTime, endTime), s1)"
    using assms(2) by (cases "makeDurationTime e durationMin s") auto
  with d [of durationMin] have "data s1 = data s" by simp
  with assms(1) s1 m show ?thesis
    by (auto simp: useRobot_def Let_def updateRobotData_def printRobotUsageMessage_def
        printMessage_def split: if_splits)
qed

lemma main_default:
  assumes "arg_at argv 2 \<notin> Some ` set commands"
  shows "main e argv s =
           (case loadData e (s\<lparr>data := []\<rparr>) of
              Inl err \<Rightarrow> Inl err
            | Inr s1 \<Rightarrow> Inl (Error ''unavailable function name''))"
  using assms by (simp add: main_def commands_def image_iff Let_def split: sum.splits)

lemma pickFreeRobot_at_or_before:
  assumes "i < length ds" and "strict_eq (robot_prop (ds ! i) ''type'') ty"
    and "\<not> truthy (used_by (ds ! i))"
  shows "\<exists>j\<le>i. pickFreeRobot ty ds = Some j"
proof (cases "pickFreeRobot ty ds")
  case None
  with assms show ?thesis
    by (auto simp: pickFreeRobot_find_ref find_ref_None)
next
  case (Some j)
  with assms have "j \<le> i"
    by (auto simp: pickFreeRobot_find_ref find_ref_Some not_less [symmetric])
  with Some show ?thesis by simp
qed

subsection \<open>The tabular codec\<close>

lemma zip_map_fst: "zip (map fst r) (map g r) = map (\<lambda>kv. (fst kv, g kv)) r"
  by (induction r) auto

lemma join_Cons: "xs \<noteq> [] \<Longrightarrow> join sep (x # xs) = x @ sep @ join sep xs"
  by (cases xs) auto

lemma foldr_push_None: "foldr push s None = None"
  by (induction s) auto

lemma foldr_push_Some: "foldr push s (Some ((f # fs) # rs)) = Some (((s @ f) # fs) # rs)"
  by (induction s) auto

lemma scan_quoted:
  "scan InQuotes (concat (map (\<lambda>c. if c = CHR 0x22 then [c, c] else [c]) s) @ CHR 0x22 # rest) =
     foldr push s (scan AfterQuote rest)"
  by (induction s) simp_all

lemma scan_bare: "\<not> needs_quotes s \<Longrightarrow> scan Bare (s @ rest) = foldr push s (scan Bare rest)"
  by (induction s) (simp_all add: needs_quotes_def)

lemma scan_at_separator:
  assumes "rest = [] \<or> hd rest = CHR '','' \<or> hd rest = CHR 0x0A" and "m \<noteq> InQuotes"
  shows "scan m rest = scan FieldStart rest"
  using assms by (cases rest) auto

lemma scan_field:
  assumes "rest = [] \<or> hd rest = CHR '','' \<or> hd rest = CHR 0x0A"
  shows "scan FieldStart (field_text s @ rest) = foldr push s (scan FieldStart rest)"
proof (cases "needs_quotes s")
  case True
  then have "scan FieldStart (field_text s @ rest) =
      scan InQuotes (concat (map (\<lambda>c. if c = CHR 0x22 then [c, c] else [c]) s) @ CHR 0x22 # rest)"
    by (simp add: field_text_def)
  then show ?thesis
    by (simp add: scan_quoted scan_at_separator [OF assms, of AfterQuote])
next
  case False
  show ?thesis
  proof (cases s)
    case Nil
    then show ?thesis by (simp add: field_text_def needs_quotes_def)
  next
    case (Cons c cs)
    with False have c: "c \<noteq> CHR '',''" "c \<noteq> CHR 0x22" "c \<noteq> CHR 0x0A" and cs: "\<not> needs_quotes cs"
      by (auto simp: needs_quotes_def)
    from False Cons have "scan FieldStart (field_text s @ rest) = push c (scan Bare (cs @ rest))"
      using c by (simp add: field_text_def)
    then show ?thesis
      using Cons by (simp add: scan_bare [OF cs] scan_at_separator [OF assms, of Bare])
  qed
qed

lemma scan_record:
  assumes "fs \<noteq> []" and "rest = [] \<or> hd rest = CHR 0x0A"
  shows "scan FieldStart (join '','' (map field_text fs) @ rest) =
           map_option ((#) fs) (case rest of [] \<Rightarrow> Some [] | c # r \<Rightarrow> scan FieldStart r)"
  using assms(1)
proof (induction fs rule: list_nonempty_induct)
  case (single f)
  have "scan FieldStart rest =
      map_option ((#) [[]]) (case rest of [] \<Rightarrow> Some [] | c # r \<Rightarrow> scan FieldStart r)"
    using assms(2) by (cases rest) (auto simp: new_record_def)
  moreover have "scan FieldStart (field_text f @ rest) = foldr push f (scan FieldStart rest)"
    using assms(2) by (intro scan_field) auto
  ultimately show ?case
    by (cases "case rest of [] \<Rightarrow> Some [] | c # r \<Rightarrow> scan FieldStart r")
      (simp_all add: foldr_push_None foldr_push_Some)
next
  case (cons f fs)
  define X where "X = join '','' (map field_text fs) @ rest"
  have "join '','' (map field_text (f # fs)) @ rest = field_text f @ CHR '','' # X"
    using cons.hyps by (simp add: join_Cons X_def)
  moreover have "scan FieldStart (field_text f @ CHR '','' # X) =
      foldr push f (scan FieldStart (CHR '','' # X))"
    by (intro scan_field) simp
  ultimately have "scan FieldStart (join '','' (map field_text (f # fs)) @ rest) =
      foldr push f (new_field (scan FieldStart X))"
    by simp
  with cons.IH show ?case
    unfolding X_def
    by (cases "case rest of [] \<Rightarrow> Some [] | c # r \<Rightarrow> scan FieldStart r")
      (simp_all add: foldr_push_None foldr_push_Some)
qed

lemma scan_text:
  assumes "ls \<noteq> []" and "\<forall>fs\<in>set ls. fs \<noteq> []"
  shows "scan FieldStart (join [CHR 0x0A] (map (\<lambda>fs. join '','' (map field_text fs)) ls)) = Some ls"
  using assms
proof (induction ls rule: list_nonempty_induct)
  case (single fs)
  then show ?case
    using scan_record [of fs "[]"] by simp
next
  case (cons fs ls)
  then show ?case
    using scan_record [of fs "CHR 0x0A # join [CHR 0x0A] (map (\<lambda>fs. join '','' (map field_text fs)) ls)"]
    by (simp add: join_Cons)
qed

lemma spec_parse_stringify:
  assumes uniform: "\<forall>r\<in>set records. map fst r = ks" and ks: "ks \<noteq> []"
  shows "spec_parse (spec_stringify records) =
           Some (map (map (\<lambda>(k, v). (k, cast (cell_text v)))) records)"
proof (cases records)
  case Nil
  then show ?thesis
    by (simp add: spec_stringify_def spec_parse_def)
next
  case (Cons r rs)
  define cells where "cells = (\<lambda>r :: obj. map (\<lambda>(k, v). cell_text v) r)"
  have len: "length (cells r') = length ks" if "r' \<in> set records" for r'
    using uniform that by (auto simp: cells_def dest: arg_cong [where f = length])
  have "map (\<lambda>(k, v). field_text k) r = map field_text ks"
    using uniform Cons by (auto simp: case_prod_beta)
  moreover have "map (\<lambda>(k, v). field_text (cell_text v)) r' = map field_text (cells r')" for r' :: obj
    by (simp add: cells_def case_prod_beta o_def)
  ultimately have "spec_stringify records =
      join [CHR 0x0A] (map (\<lambda>fs. join '','' (map field_text fs)) (ks # map cells records))"
    using Cons by (simp add: spec_stringify_def o_def)
  moreover have "cells r' \<noteq> []" if "r' \<in> set records" for r'
    using len [OF that] ks by (metis length_0_conv)
  then have "\<forall>fs\<in>set (ks # map cells records). fs \<noteq> []"
    using ks by auto
  ultimately have sc: "scan FieldStart (spec_stringify records) = Some (ks # map cells records)"
    using scan_text [of "ks # map cells records"] by simp
  have row: "zip ks (map cast (cells r')) = map (\<lambda>(k, v). (k, cast (cell_text v))) r'"
    if "r' \<in> set records" for r'
  proof -
    have "ks = map fst r'"
      using uniform that by simp
    moreover have "map cast (cells r') = map (\<lambda>kv. cast (cell_text (snd kv))) r'"
      by (simp add: cells_def case_prod_beta)
    ultimately have "zip ks (map cast (cells r')) =
          zip (map fst r') (map (\<lambda>kv. cast (cell_text (snd kv))) r')"
      by (simp only:)
    also have "\<dots> = map (\<lambda>kv. (fst kv, cast (cell_text (snd kv)))) r'"
      by (rule zip_map_fst)
    finally show ?thesis by (simp add: case_prod_beta)
  qed
  show ?thesis
    using len row
    by (simp add: spec_parse_def sc list_all_iff o_def cong: map_cong)
qed

lemma digit_cases:
  fixes d :: int
  assumes "0 \<le> d" and "d < 10"
  shows "d = 0 \<or> d = 1 \<or> d = 2 \<or> d = 3 \<or> d = 4 \<or> d = 5 \<or> d = 6 \<or> d = 7 \<or> d = 8 \<or> d = 9"
  using assms by arith

lemma digit_char_props:
  assumes "0 \<le> d" and "d < 10"
  shows "is_digit (digit_char d)" and "digit_val (digit_char d) = d"
  using digit_cases [OF assms]
  by (auto simp: is_digit_def digit_val_def digit_char_def)

lemma read_digits_snoc: "read_digits (s @ [c]) = read_digits s * 10 + digit_val c"
  by (simp add: read_digits_def)

lemma show_digits_props:
  "0 \<le> n \<Longrightarrow> show_digits n \<noteq> [] \<and> list_all is_digit (show_digits n) \<and> read_digits (show_digits n) = n"
proof (induction n rule: show_digits.induct)
  case (1 n)
  show ?case
  proof (cases "n < 10")
    case True
    with 1(2) show ?thesis
      by (simp add: show_digits.simps [of n] digit_char_props read_digits_def)
  next
    case False
    then have "0 \<le> n div 10" by simp
    from 1(1) [OF False this] False show ?thesis
      by (simp add: show_digits.simps [of n] digit_char_props read_digits_snoc)
  qed
qed

lemma is_digit_plain:
  "is_digit c \<Longrightarrow> \<not> is_space c \<and> c \<noteq> CHR ''-'' \<and> c \<noteq> CHR ''+'' \<and> c \<noteq> CHR ''.''"
  by (auto simp: is_digit_def is_space_def)

lemma trim_id:
  assumes "s \<noteq> []" and "\<not> is_space (hd s)" and "\<not> is_space (last s)"
  shows "trim s = s"
proof -
  from assms(1,2) have "dropWhile is_space s = s"
    by (cases s) auto
  moreover from assms(1,3) have "dropWhile is_space (rev s) = rev s"
    by (cases s rule: rev_cases) auto
  ultimately show ?thesis
    by (simp add: trim_def)
qed

lemma pow10_0: "pow10 0 = 1"
  by (simp add: pow10_def int_power.simps [of 10 0])

lemma numeric_value_digits:
  assumes "ds \<noteq> []" and "list_all is_digit ds"
  shows "numeric_value ds = Some (of_int (read_digits ds))"
    and "numeric_value (CHR ''-'' # ds) = Some (of_int (- read_digits ds))"
proof -
  from assms have h: "is_digit (hd ds)" and l: "is_digit (last ds)"
    by (auto simp: list_all_iff)
  have t: "takeWhile is_digit ds = ds" "dropWhile is_digit ds = []"
    using assms(2) by (auto simp: list_all_iff takeWhile_eq_all_conv)
  have "trim ds = ds"
    using assms(1) h l by (intro trim_id) (auto dest: is_digit_plain)
  moreover have "split_sign ds = (1, ds)"
    using assms(1) h by (cases ds) (auto simp: split_sign_def dest: is_digit_plain)
  ultimately show "numeric_value ds = Some (of_int (read_digits ds))"
    using assms by (simp add: numeric_value_def t exponent_value_def pow10_0 Let_def list_all_iff)
  have "trim (CHR ''-'' # ds) = CHR ''-'' # ds"
    using assms(1) l by (intro trim_id) (auto simp: is_space_def dest: is_digit_plain)
  moreover have "split_sign (CHR ''-'' # ds) = (- 1, ds)"
    by (simp add: split_sign_def)
  ultimately show "numeric_value (CHR ''-'' # ds) = Some (of_int (- read_digits ds))"
    using assms by (simp add: numeric_value_def t exponent_value_def pow10_0 Let_def list_all_iff)
qed

lemma cast_show_int: "cast (show_int n) = CNum (of_int n)"
proof (cases "n < 0")
  case True
  then have "0 \<le> - n" by simp
  from show_digits_props [OF this] True show ?thesis
    by (simp add: cast_def show_int_def numeric_value_digits(2))
next
  case False
  then have "0 \<le> n" by simp
  from show_digits_props [OF this] False show ?thesis
    by (simp add: cast_def show_int_def numeric_value_digits(1))
qed

section \<open>Expiry\<close>

text \<open>
  C1 (amended). \<^verbatim>\<open>checkAndClearExpiredRobots\<close> clears \<^verbatim>\<open>used_by\<close>, \<^verbatim>\<open>start_time\<close> and
  \<^verbatim>\<open>end_time\<close> of exactly the records with \<^verbatim>\<open>used_by\<close> set whose end time is strictly
  before the current time, and leaves every other record as it is. Afterwards no record
  has \<^verbatim>\<open>used_by\<close> set while its end time is strictly before now: a record still reserved
  with a numeric end time in the range of \<^verbatim>\<open>Date\<close> has \<open>now \<le> end_time\<close>. The boundary
  \<open>end_time = now\<close> is not cleared.
\<close>

theorem clearExpired_keeps_no_expired_reservation:
  "data (snd (checkAndClearExpiredRobots e s)) =
     map (\<lambda>r. if truthy (used_by r) \<and> expired e (clock s (ticks s)) r then clear_robot r else r)
       (data s) \<and>
   (\<forall>r\<in>set (data (snd (checkAndClearExpiredRobots e s))).
      truthy (used_by r) \<longrightarrow>
        \<not> expired e (clock s (ticks s)) r \<and>
        (\<forall>t. end_time r = Some (JNum t) \<and> \<bar>t\<bar> \<le> 8640000000000000 \<longrightarrow> clock s (ticks s) \<le> t))"
proof -
  have "\<not> expired e now r \<Longrightarrow> end_time r = Some (JNum t) \<Longrightarrow> \<bar>t\<bar> \<le> 8640000000000000 \<Longrightarrow> now \<le> t"
    for now r t
    by (simp add: expired_def TimeClip_def)
  then show ?thesis
    by (auto simp: checkAndClearExpiredRobots_eq clear_one_def [abs_def] clear_robot_def)
qed

text \<open>
  At the time 2001 the reservation of \<^verbatim>\<open>R2\<close> (until 2000) is cleared; at the time 1000 it
  is kept, and its end time is not before 1000.
\<close>

theorem clearExpired_keeps_no_expired_reservation_witness:
  "data (snd (checkAndClearExpiredRobots sample_env ((sample_state 2001)\<lparr>data := [R1, R2]\<rparr>))) =
     [R1, clear_robot R2] \<and>
   data (snd (checkAndClearExpiredRobots sample_env ((sample_state 1000)\<lparr>data := [R1, R2]\<rparr>))) =
     [R1, R2] \<and>
   truthy (used_by R2) \<and> end_time R2 = Some (JNum 2000) \<and> (1000::int) \<le> 2000"
  using clearExpired_keeps_no_expired_reservation
    [of sample_env "(sample_state 2001)\<lparr>data := [R1, R2]\<rparr>"]
    clearExpired_keeps_no_expired_reservation
    [of sample_env "(sample_state 1000)\<lparr>data := [R1, R2]\<rparr>"]
  by (simp add: sample_state_def R1_def R2_def expired_def TimeClip_def)

text \<open>
  C1 as stated fails on the boundary: at the time 2000 the record \<^verbatim>\<open>R2\<close> keeps
  \<^verbatim>\<open>used_by\<close> although its end time 2000 is less than or equal to now.
\<close>

theorem clearExpired_boundary_counterexample:
  "data (snd (checkAndClearExpiredRobots sample_env ((sample_state 2000)\<lparr>data := [R1, R2]\<rparr>))) =
     [R1, R2] \<and>
   truthy (used_by R2) \<and> end_time R2 = Some (JNum 2000) \<and>
   (2000::int) \<le> clock (sample_state 2000) (ticks (sample_state 2000))"
  by (simp add: checkAndClearExpiredRobots_eq clear_one_def sample_state_def R1_def R2_def
      expired_def TimeClip_def)

section \<open>Reservation\<close>




text \<open>
  \<^verbatim>\<open>setMinutes\<close> takes the integer part of the sum of the minutes and the duration, not of
  the duration: at the minute 10 a duration of \<open>-0.5\<close> ends the reservation a minute
  before it starts, and at the minute 59 a duration of \<open>1 - 2\<^bsup>-53\<^esup>\<close>, with which the sum
  is the double 60, lasts a whole minute.
\<close>

lemma makeDurationTime_fraction_of_sum:
  "fst (makeDurationTime sample_env (Some (Num (- 1 / 2))) (sample_state 600000)) =
     (JNum 600000, JNum 540000)"
  "fst (makeDurationTime sample_env (Some (Num (1 - 1 / 2 ^ 53))) (sample_state 3540000)) =
     (JNum 3540000, JNum 3600000)"
  by code_simp+

text \<open>
  C3. When the record that \<^verbatim>\<open>useRobotById\<close> or \<^verbatim>\<open>useRobotByAlias\<close> finds is already reserved
  (\<^verbatim>\<open>used_by\<close> set), the call returns normally with the state as it was, but for one more
  printed line, the usage of that record: no record changes, so \<^verbatim>\<open>used_by\<close>,
  \<^verbatim>\<open>start_time\<close> and \<^verbatim>\<open>end_time\<close> stay, and nothing is written to storage.
\<close>

theorem reserve_occupied_rejected:
  "(find_ref (\<lambda>robot. strict_eq (robot_prop robot ''id'') ident) (data s) = Some i \<and>
    truthy (used_by (data s ! i)) \<longrightarrow>
      useRobotById e ident user durationMin s =
        Inr (s\<lparr>stdout := stdout s @ [usage_line e (data s ! i)]\<rparr>)) \<and>
   (find_ref (\<lambda>robot. strict_eq (robot_prop robot ''alias'') alias) (data s) = Some j \<and>
    truthy (used_by (data s ! j)) \<longrightarrow>
      useRobotByAlias e alias user durationMin s =
        Inr (s\<lparr>stdout := stdout s @ [usage_line e (data s ! j)]\<rparr>))"
  by (simp add: useRobotById_def useRobotByAlias_def printRobotUsageMessage_def printMessage_def)

text \<open>\<^verbatim>\<open>R2\<close> is reserved by \<^verbatim>\<open>bob\<close>: a request of \<^verbatim>\<open>alice\<close> for it, by id or by alias, only prints its usage.\<close>

theorem reserve_occupied_rejected_witness:
  "find_ref (\<lambda>robot. strict_eq (robot_prop robot ''id'') (Some (JStr ''R2''))) [R1, R2] = Some 1 \<and>
   find_ref (\<lambda>robot. strict_eq (robot_prop robot ''alias'') (Some (JStr ''a2''))) [R1, R2] = Some 1 \<and>
   truthy (used_by ([R1, R2] ! 1)) \<and>
   useRobotById sample_env (Some (JStr ''R2'')) (Some (JStr ''alice'')) (Some (Num 30))
       ((sample_state 1000)\<lparr>data := [R1, R2]\<rparr>) =
     Inr ((sample_state 1000)\<lparr>data := [R1, R2], stdout := [usage_line sample_env R2]\<rparr>) \<and>
   useRobotByAlias sample_env (Some (JStr ''a2'')) (Some (JStr ''alice'')) (Some (Num 30))
       ((sample_state 1000)\<lparr>data := [R1, R2]\<rparr>) =
     Inr ((sample_state 1000)\<lparr>data := [R1, R2], stdout := [usage_line sample_env R2]\<rparr>) \<and>
   usage_line sample_env R2 =
     ''[arm] R2(a2) is used by '' @ gem @ ''bob'' @ gem @ '' 00:00:00 - 00:00:02''"
proof -
  have f: "find_ref (\<lambda>robot. strict_eq (robot_prop robot ''id'') (Some (JStr ''R2''))) [R1, R2] = Some 1"
    "find_ref (\<lambda>robot. strict_eq (robot_prop robot ''alias'') (Some (JStr ''a2''))) [R1, R2] = Some 1"
    by (simp_all add: find_ref_Some R1_def R2_def strict_eq_def robot_prop_def)
  have u: "usage_line sample_env R2 =
             ''[arm] R2(a2) is used by '' @ gem @ ''bob'' @ gem @ '' 00:00:00 - 00:00:02''"
    by code_simp
  show ?thesis
    using f u
      reserve_occupied_rejected [of "Some (JStr ''R2'')" "(sample_state 1000)\<lparr>data := [R1, R2]\<rparr>" 1
        sample_env "Some (JStr ''alice'')" "Some (Num 30)" "Some (JStr ''a2'')" 1]
    by (simp add: sample_state_def R2_def)
qed

text \<open>
  C7. When every record of the type has \<^verbatim>\<open>used_by\<close> set, \<^verbatim>\<open>useRobotByType\<close> prints
  \<^verbatim>\<open>availableRobot is not found\<close> and returns with everything else as it was: no record
  changes and nothing is written to storage.
\<close>

theorem useRobotByType_none_free:
  assumes "\<forall>r\<in>set (data s). strict_eq (robot_prop r ''type'') ty \<longrightarrow> truthy (used_by r)"
  shows "useRobotByType e ty user durationMin s =
           Inr (s\<lparr>stdout := stdout s @ [''availableRobot is not found'']\<rparr>)"
proof -
  from assms have "pickFreeRobot ty (data s) = None"
    by (auto simp: pickFreeRobot_find_ref find_ref_None)
  then show ?thesis
    by (simp add: useRobotByType_def printMessage_def)
qed

text \<open>The only \<^verbatim>\<open>arm\<close> is the reserved \<^verbatim>\<open>R2\<close>.\<close>

theorem useRobotByType_none_free_witness:
  "strict_eq (robot_prop R2 ''type'') (Some (JStr ''arm'')) \<and> truthy (used_by R2) \<and>
   useRobotByType sample_env (Some (JStr ''arm'')) (Some (JStr ''bob'')) None
       ((sample_state 1000)\<lparr>data := [R2]\<rparr>) =
     Inr ((sample_state 1000)\<lparr>data := [R2], stdout := [''availableRobot is not found'']\<rparr>)"
proof -
  have h: "\<forall>r\<in>set (data ((sample_state 1000)\<lparr>data := [R2]\<rparr>)).
             strict_eq (robot_prop r ''type'') (Some (JStr ''arm'')) \<longrightarrow> truthy (used_by r)"
    by (simp add: R2_def)
  show ?thesis
    using useRobotByType_none_free [OF h, of sample_env "Some (JStr ''bob'')" None]
    by (simp add: sample_state_def R2_def strict_eq_def robot_prop_def)
qed

section \<open>Round trip through the codec\<close>

text \<open>
  C4 (amended), against the codec modelled from the specification. For records of one
  shape with at least one key, whose values are strings, integers or absent,
  \<^verbatim>\<open>parse(stringify(records))\<close> succeeds and gives the same keys in the same order, each
  value read back from its text: an integer as that number, a string that does not look
  like a number as itself, a string that looks like a number as the number it denotes,
  and an absent value as the empty string.
\<close>

theorem codec_round_trip:
  assumes "\<forall>r\<in>set records. map fst r = ks" and "ks \<noteq> []"
  shows "spec_parse (spec_stringify records) =
           Some (map (map (\<lambda>(k, v). (k, cast (cell_text v)))) records) \<and>
         cast (cell_text (Some (JNum n))) = CNum (of_int n) \<and>
         (\<not> numeric_looking s \<longrightarrow> cast (cell_text (Some (JStr s))) = CStr s) \<and>
         (numeric_value s = Some x \<longrightarrow> cast (cell_text (Some (JStr s))) = CNum x) \<and>
         cast (cell_text None) = CStr []"
proof (intro conjI impI)
  show "spec_parse (spec_stringify records) =
           Some (map (map (\<lambda>(k, v). (k, cast (cell_text v)))) records)"
    by (rule spec_parse_stringify [OF assms])
  show "cast (cell_text (Some (JNum n))) = CNum (of_int n)"
    by (simp add: cell_text_def cast_show_int)
  show "cast (cell_text (Some (JStr s))) = CStr s" if "\<not> numeric_looking s"
    using that by (simp add: cell_text_def cast_def numeric_looking_def)
  show "cast (cell_text (Some (JStr s))) = CNum x" if "numeric_value s = Some x"
    using that by (simp add: cell_text_def cast_def)
  show "cast (cell_text None) = CStr []"
    by (simp add: cell_text_def cast_def numeric_value_def trim_def split_sign_def)
qed

text \<open>
  Two robots, the second with a comma in its alias, a double quote and a line break in
  its type and the user \<^verbatim>\<open>1.5\<close>, are written with a header line, the alias and the type
  between double quotes, and read back; the user comes back as a number.
\<close>

theorem codec_round_trip_witness:
  "map fst [(''id'', Some (JStr ''R1'')), (''alias'', Some (JStr ''a1'')), (''type'', Some (JStr ''arm'')),
            (''used_by'', None), (''start_time'', None)] =
     [''id'', ''alias'', ''type'', ''used_by'', ''start_time''] \<and>
   map fst [(''id'', Some (JStr ''R2'')), (''alias'', Some (JStr ''a,2'')),
            (''type'', Some (JStr [CHR ''x'', CHR 0x22, CHR 0x0A, CHR ''y''])),
            (''used_by'', Some (JStr ''1.5'')), (''start_time'', Some (JNum 400))] =
     [''id'', ''alias'', ''type'', ''used_by'', ''start_time''] \<and>
   spec_stringify
     [[(''id'', Some (JStr ''R1'')), (''alias'', Some (JStr ''a1'')), (''type'', Some (JStr ''arm'')),
       (''used_by'', None), (''start_time'', None)],
      [(''id'', Some (JStr ''R2'')), (''alias'', Some (JStr ''a,2'')),
       (''type'', Some (JStr [CHR ''x'', CHR 0x22, CHR 0x0A, CHR ''y''])),
       (''used_by'', Some (JStr ''1.5'')), (''start_time'', Some (JNum 400))]] =
     ''id,alias,type,used_by,start_time\<newline>R1,a1,arm,,\<newline>R2,'' @ [CHR 0x22] @ ''a,2'' @ [CHR 0x22] @ '','' @
       [CHR 0x22, CHR ''x'', CHR 0x22, CHR 0x22, CHR 0x0A, CHR ''y'', CHR 0x22] @ '',1.5,400'' \<and>
   spec_parse (spec_stringify
     [[(''id'', Some (JStr ''R1'')), (''alias'', Some (JStr ''a1'')), (''type'', Some (JStr ''arm'')),
       (''used_by'', None), (''start_time'', None)],
      [(''id'', Some (JStr ''R2'')), (''alias'', Some (JStr ''a,2'')),
       (''type'', Some (JStr [CHR ''x'', CHR 0x22, CHR 0x0A, CHR ''y''])),
       (''used_by'', Some (JStr ''1.5'')), (''start_time'', Some (JNum 400))]]) =
     Some [[(''id'', CStr ''R1''), (''alias'', CStr ''a1''), (''type'', CStr ''arm''),
            (''used_by'', CStr []), (''start_time'', CStr [])],
           [(''id'', CStr ''R2''), (''alias'', CStr ''a,2''),
            (''type'', CStr [CHR ''x'', CHR 0x22, CHR 0x0A, CHR ''y'']),
            (''used_by'', CNum (3 / 2)), (''start_time'', CNum 400)]] \<and>
   \<not> numeric_looking ''a,2'' \<and> cast (cell_text (Some (JStr ''a,2''))) = CStr ''a,2'' \<and>
   numeric_value ''1.5'' = Some (3 / 2) \<and> cast (cell_text (Some (JStr ''1.5''))) = CNum (3 / 2) \<and>
   cast (cell_text (Some (JNum 400))) = CNum 400"
proof -
  define ks where "ks = [''id'', ''alias'', ''type'', ''used_by'', ''start_time'']"
  define r1 :: obj where
    "r1 = [(''id'', Some (JStr ''R1'')), (''alias'', Some (JStr ''a1'')), (''type'', Some (JStr ''arm'')),
           (''used_by'', None), (''start_time'', None)]"
  define r2 :: obj where
    "r2 = [(''id'', Some (JStr ''R2'')), (''alias'', Some (JStr ''a,2'')),
           (''type'', Some (JStr [CHR ''x'', CHR 0x22, CHR 0x0A, CHR ''y''])),
           (''used_by'', Some (JStr ''1.5'')), (''start_time'', Some (JNum 400))]"
  have k: "map fst r1 = ks" "map fst r2 = ks"
    by (simp_all add: r1_def r2_def ks_def)
  have h: "\<forall>r\<in>set [r1, r2]. map fst r = ks" "ks \<noteq> []"
    using k by (simp_all add: ks_def)
  have c: "map (map (\<lambda>(k, v). (k, cast (cell_text v)))) [r1, r2] =
     [[(''id'', CStr ''R1''), (''alias'', CStr ''a1''), (''type'', CStr ''arm''),
       (''used_by'', CStr []), (''start_time'', CStr [])],
      [(''id'', CStr ''R2''), (''alias'', CStr ''a,2''),
       (''type'', CStr [CHR ''x'', CHR 0x22, CHR 0x0A, CHR ''y'']),
       (''used_by'', CNum (3 / 2)), (''start_time'', CNum 400)]]"
    unfolding r1_def r2_def by code_simp
  have st: "spec_stringify [r1, r2] =
     ''id,alias,type,used_by,start_time\<newline>R1,a1,arm,,\<newline>R2,'' @ [CHR 0x22] @ ''a,2'' @ [CHR 0x22] @ '','' @
       [CHR 0x22, CHR ''x'', CHR 0x22, CHR 0x22, CHR 0x0A, CHR ''y'', CHR 0x22] @ '',1.5,400''"
    unfolding r1_def r2_def by code_simp
  have n: "\<not> numeric_looking ''a,2''" "numeric_value ''1.5'' = Some (3 / 2)"
    by code_simp+
  note rt = codec_round_trip [OF h, of 400 "''a,2''" "3 / 2"] codec_round_trip [OF h, of 400 "''1.5''" "3 / 2"]
  have p: "spec_parse (spec_stringify [r1, r2]) =
     Some [[(''id'', CStr ''R1''), (''alias'', CStr ''a1''), (''type'', CStr ''arm''),
            (''used_by'', CStr []), (''start_time'', CStr [])],
           [(''id'', CStr ''R2''), (''alias'', CStr ''a,2''),
            (''type'', CStr [CHR ''x'', CHR 0x22, CHR 0x0A, CHR ''y'']),
            (''used_by'', CNum (3 / 2)), (''start_time'', CNum 400)]]"
    using rt(1) by (simp only: c)
  have e: "cast (cell_text (Some (JStr ''a,2''))) = CStr ''a,2''"
    "cast (cell_text (Some (JStr ''1.5''))) = CNum (3 / 2)"
    using rt n by blast+
  have i: "cast (cell_text (Some (JNum 400))) = CNum 400"
    using rt(1) by simp
  show ?thesis
    using k p st e i n unfolding ks_def r1_def r2_def
    by (intro conjI) assumption+
qed

text \<open>
  C4 as stated fails for a string that looks like a number: the id \<^verbatim>\<open>007\<close> is written
  as \<^verbatim>\<open>007\<close> and read back as the number 7, which is neither the string nor a value
  with the same text. An absent value is read back as the empty string, and a record
  without keys as a record with one key, the empty string.
\<close>

theorem codec_numeric_string_counterexample:
  "spec_stringify [[(''id'', Some (JStr ''007''))]] = ''id\<newline>007'' \<and>
   spec_parse (spec_stringify [[(''id'', Some (JStr ''007''))]]) = Some [[(''id'', CNum 7)]] \<and>
   CNum 7 \<noteq> CStr ''007'' \<and> cell_text (Some (JNum 7)) \<noteq> cell_text (Some (JStr ''007'')) \<and>
   spec_parse (spec_stringify [[(''used_by'', None)]]) = Some [[(''used_by'', CStr [])]] \<and>
   spec_parse (spec_stringify [[]]) = Some [[('''', CStr [])]]"
  by code_simp

section \<open>Finding a free robot\<close>

text \<open>
  C5. \<^verbatim>\<open>pickFreeRobot\<close> returns the first record in load order whose \<^verbatim>\<open>type\<close> equals the
  argument and whose \<^verbatim>\<open>used_by\<close> is not set, and nothing when there is no such record; so
  it never returns a record with \<^verbatim>\<open>used_by\<close> set. In a list as \<^verbatim>\<open>loadData\<close> leaves it
  (every optional field absent or truthy) "not set" is "absent".
\<close>

theorem pickFreeRobot_first_free:
  "(pickFreeRobot ty ds = Some i \<longleftrightarrow>
      i < length ds \<and>
      (strict_eq (robot_prop (ds ! i) ''type'') ty \<and> \<not> truthy (used_by (ds ! i))) \<and>
      (\<forall>j<i. \<not> (strict_eq (robot_prop (ds ! j) ''type'') ty \<and> \<not> truthy (used_by (ds ! j))))) \<and>
   (pickFreeRobot ty ds = None \<longleftrightarrow>
      (\<forall>r\<in>set ds. \<not> (strict_eq (robot_prop r ''type'') ty \<and> \<not> truthy (used_by r)))) \<and>
   ((\<forall>r\<in>set ds. normalised r) \<longrightarrow>
      (\<forall>r\<in>set ds. (strict_eq (robot_prop r ''type'') ty \<and> \<not> truthy (used_by r)) = free_of_type ty r))"
proof -
  have "normalised r \<Longrightarrow> \<not> truthy (used_by r) \<longleftrightarrow> used_by r = None" for r
    by (auto simp: normalised_def)
  then show ?thesis
    by (simp add: pickFreeRobot_find_ref find_ref_Some find_ref_None free_of_type_def)
qed

text \<open>
  Of the robots \<^verbatim>\<open>R2, R1, R1\<close> of type \<^verbatim>\<open>arm\<close> the first free one is at position 1; when
  only the reserved \<^verbatim>\<open>R2\<close> is there, or for the type \<^verbatim>\<open>drone\<close>, there is none.
\<close>

theorem pickFreeRobot_first_free_witness:
  "pickFreeRobot (Some (JStr ''arm'')) [R2, R1, R1] = Some 1 \<and>
   pickFreeRobot (Some (JStr ''arm'')) [R2] = None \<and>
   pickFreeRobot (Some (JStr ''drone'')) [R2, R1, R1] = None \<and>
   normalised R1 \<and> normalised R2 \<and> free_of_type (Some (JStr ''arm'')) R1 \<and>
   \<not> free_of_type (Some (JStr ''arm'')) R2"
  using pickFreeRobot_first_free [of "Some (JStr ''arm'')" "[R2, R1, R1]" 1]
    pickFreeRobot_first_free [of "Some (JStr ''arm'')" "[R2]" 0]
    pickFreeRobot_first_free [of "Some (JStr ''drone'')" "[R2, R1, R1]" 0]
  by (simp add: R1_def R2_def strict_eq_def robot_prop_def normalised_def free_of_type_def)

section \<open>Loading\<close>

text \<open>
  C6. When the storage can be read and parsed, \<^verbatim>\<open>loadData\<close> turns the parsed rows into
  records and runs the expiry pass over them. It writes the storage exactly when that
  pass cleared at least one record (the stringified list after clearing; the load fails
  when that write fails); when no record is expired it writes nothing and the records are
  the parsed ones.
\<close>

theorem loadData_rewrites_iff_cleared:
  assumes "storage s = Some txt" and "csv_parse e txt = Some rows"
  shows "loadData e s =
           (let now = clock s (ticks s);
                ds = map toRobotData rows;
                s1 = s\<lparr>data := map (clear_one e now) ds, ticks := Suc (ticks s)\<rparr>;
                updatedInput = csv_stringify e (map robot_object (data s1))
            in if \<exists>r\<in>set ds. truthy (used_by r) \<and> expired e now r
               then if writable s
                    then Inr (s1\<lparr>storage := Some updatedInput, written := written s @ [updatedInput]\<rparr>)
                    else Inl WriteError
               else Inr (s\<lparr>data := ds, ticks := Suc (ticks s)\<rparr>))"
proof -
  define now where "now = clock s (ticks s)"
  define ds where "ds = map toRobotData rows"
  define cleared where "cleared \<longleftrightarrow> (\<exists>r\<in>set ds. truthy (used_by r) \<and> expired e now r)"
  have chk: "checkAndClearExpiredRobots e (s\<lparr>data := ds\<rparr>) =
               (cleared, s\<lparr>data := map (clear_one e now) ds, ticks := Suc (ticks s)\<rparr>)"
    by (simp add: checkAndClearExpiredRobots_eq now_def cleared_def)
  have ld: "loadData e s =
              (if cleared
               then updateRobotData e (s\<lparr>data := map (clear_one e now) ds, ticks := Suc (ticks s)\<rparr>)
               else Inr (s\<lparr>data := map (clear_one e now) ds, ticks := Suc (ticks s)\<rparr>))"
    using assms by (simp add: loadData_def getRobotData_def parseRobotData_def chk ds_def [symmetric])
  show ?thesis
  proof (cases cleared)
    case True
    with ld show ?thesis
      by (simp add: updateRobotData_def Let_def now_def [symmetric] ds_def [symmetric]
          cleared_def [symmetric])
  next
    case False
    then have "map (clear_one e now) ds = ds"
      unfolding cleared_def by (rule map_clear_one_id)
    with ld False show ?thesis
      by (simp add: Let_def now_def [symmetric] ds_def [symmetric] cleared_def [symmetric])
  qed
qed

text \<open>At the time 2001 the reservation of \<^verbatim>\<open>R2\<close> is cleared and the storage rewritten; at 1000 nothing is written.\<close>

theorem loadData_rewrites_iff_cleared_witness:
  "storage (sample_state 2001) = Some ''data'' \<and> csv_parse sample_env ''data'' = Some sample_rows \<and>
   loadData sample_env (sample_state 2001) =
     Inr ((sample_state 2001)\<lparr>data := [R1, clear_robot R2], ticks := 1,
            storage := Some ''R1,a1,arm,,,\<newline>R2,a2,arm,,,'',
            written := [''R1,a1,arm,,,\<newline>R2,a2,arm,,,'']\<rparr>) \<and>
   loadData sample_env (sample_state 1000) =
     Inr ((sample_state 1000)\<lparr>data := [R1, R2], ticks := 1\<rparr>)"
proof -
  have h: "storage (sample_state t) = Some ''data''" "csv_parse sample_env ''data'' = Some sample_rows" for t
    by (simp_all add: sample_state_def sample_env_def)
  have st: "csv_stringify sample_env (map robot_object [R1, clear_robot R2]) = ''R1,a1,arm,,,\<newline>R2,a2,arm,,,''"
    by code_simp
  show ?thesis
    using h loadData_rewrites_iff_cleared [of "sample_state 2001" "''data''" sample_env sample_rows]
      loadData_rewrites_iff_cleared [of "sample_state 1000" "''data''" sample_env sample_rows] st
    by (simp add: sample_parse sample_state_def Let_def clear_one_def expired_def TimeClip_def
        R1_def R2_def)
qed

section \<open>Falsy cells\<close>

text \<open>
  C10. \<^verbatim>\<open>parseRobotData\<close> turns a falsy optional cell into an absent field: a
  \<^verbatim>\<open>used_by\<close> cell that is the empty string, and a \<^verbatim>\<open>start_time\<close> or \<^verbatim>\<open>end_time\<close> cell
  that is 0 or the empty string. The record is the very one a row without that cell
  gives, so a stored time 0 cannot be told from no time. A robot whose stored
  \<^verbatim>\<open>used_by\<close> is the empty string counts as free everywhere: its usage line says
  \<^verbatim>\<open>is not used\<close>, \<^verbatim>\<open>pickFreeRobot\<close> finds a free robot of its type at its position or
  before, and \<^verbatim>\<open>useRobotById\<close> and \<^verbatim>\<open>useRobotByAlias\<close> go on to reserve it.
\<close>

theorem toRobotData_falsy_cells_absent:
  "(map_of rw ''used_by'' = Some (JStr []) \<longrightarrow> used_by (toRobotData rw) = None) \<and>
   (map_of rw ''start_time'' = Some (JNum 0) \<or> map_of rw ''start_time'' = Some (JStr []) \<longrightarrow>
      start_time (toRobotData rw) = None) \<and>
   (map_of rw ''end_time'' = Some (JNum 0) \<or> map_of rw ''end_time'' = Some (JStr []) \<longrightarrow>
      end_time (toRobotData rw) = None) \<and>
   (k \<in> set optional_keys \<and> map_of rw k = Some v \<and> \<not> truthy (Some v) \<longrightarrow>
      toRobotData rw = toRobotData (filter (\<lambda>(k', v'). k' \<noteq> k) rw)) \<and>
   (map_of rw ''used_by'' = Some (JStr []) \<and> data s ! i = toRobotData rw \<longrightarrow>
      \<not> truthy (used_by (data s ! i)) \<and>
      usage_line e (data s ! i) =
        ''['' @ to_string (robot_prop (data s ! i) ''type'') @ ''] '' @
        to_string (robot_prop (data s ! i) ''id'') @
        ''('' @ to_string (robot_prop (data s ! i) ''alias'') @ '') is not used'' \<and>
      (i < length (data s) \<and> strict_eq (robot_prop (data s ! i) ''type'') ty \<longrightarrow>
         (\<exists>j\<le>i. pickFreeRobot ty (data s) = Some j)) \<and>
      (find_ref (\<lambda>robot. strict_eq (robot_prop robot ''id'') ident) (data s) = Some i \<longrightarrow>
         useRobotById e ident user durationMin s =
           useRobot e i user (Some (durationMin_or_default durationMin)) s) \<and>
      (find_ref (\<lambda>robot. strict_eq (robot_prop robot ''alias'') alias) (data s) = Some i \<longrightarrow>
         useRobotByAlias e alias user durationMin s =
           useRobot e i user (Some (durationMin_or_default durationMin)) s))"
proof (intro conjI impI)
  show u: "used_by (toRobotData rw) = None" if "map_of rw ''used_by'' = Some (JStr [])"
    using that by (simp add: toRobotData_def or_undefined_def)
  show "start_time (toRobotData rw) = None"
    if "map_of rw ''start_time'' = Some (JNum 0) \<or> map_of rw ''start_time'' = Some (JStr [])"
    using that by (auto simp: toRobotData_def or_undefined_def)
  show "end_time (toRobotData rw) = None"
    if "map_of rw ''end_time'' = Some (JNum 0) \<or> map_of rw ''end_time'' = Some (JStr [])"
    using that by (auto simp: toRobotData_def or_undefined_def)
  show "toRobotData rw = toRobotData (filter (\<lambda>(k', v'). k' \<noteq> k) rw)"
    if "k \<in> set optional_keys \<and> map_of rw k = Some v \<and> \<not> truthy (Some v)"
    using that toRobotData_without_falsy [of k rw v] by blast
next
  assume "map_of rw ''used_by'' = Some (JStr []) \<and> data s ! i = toRobotData rw"
  then have free: "used_by (data s ! i) = None"
    by (simp add: toRobotData_def or_undefined_def)
  show "\<not> truthy (used_by (data s ! i))"
    by (simp add: free)
  show "usage_line e (data s ! i) =
        ''['' @ to_string (robot_prop (data s ! i) ''type'') @ ''] '' @
        to_string (robot_prop (data s ! i) ''id'') @
        ''('' @ to_string (robot_prop (data s ! i) ''alias'') @ '') is not used''"
    by (simp add: usage_line_def free)
  show "\<exists>j\<le>i. pickFreeRobot ty (data s) = Some j"
    if "i < length (data s) \<and> strict_eq (robot_prop (data s ! i) ''type'') ty"
    using that pickFreeRobot_at_or_before [of i "data s" ty] by (simp add: free)
  show "useRobotById e ident user durationMin s =
           useRobot e i user (Some (durationMin_or_default durationMin)) s"
    if "find_ref (\<lambda>robot. strict_eq (robot_prop robot ''id'') ident) (data s) = Some i"
    using that by (simp add: useRobotById_def free)
  show "useRobotByAlias e alias user durationMin s =
           useRobot e i user (Some (durationMin_or_default durationMin)) s"
    if "find_ref (\<lambda>robot. strict_eq (robot_prop robot ''alias'') alias) (data s) = Some i"
    using that by (simp add: useRobotByAlias_def free)
qed

text \<open>
  The row of \<^verbatim>\<open>R1\<close> with an empty \<^verbatim>\<open>used_by\<close> and the start time 0 gives the free
  record \<^verbatim>\<open>R1\<close>, as the row without a start time does.
\<close>

theorem toRobotData_falsy_cells_absent_witness:
  "map_of zero_row ''used_by'' = Some (JStr []) \<and>
   map_of zero_row ''start_time'' = Some (JNum 0) \<and>
   map_of zero_row ''end_time'' = Some (JStr []) \<and>
   toRobotData zero_row = R1 \<and>
   toRobotData (filter (\<lambda>(k', v'). k' \<noteq> ''start_time'') zero_row) = R1 \<and>
   usage_line sample_env R1 = ''[arm] R1(a1) is not used'' \<and>
   pickFreeRobot (Some (JStr ''arm'')) [R2, R1] = Some 1 \<and>
   useRobotById sample_env (Some (JStr ''R1'')) (Some (JStr ''alice'')) None
       ((sample_state 1000)\<lparr>data := [R2, R1]\<rparr>) =
     useRobot sample_env 1 (Some (JStr ''alice'')) (Some (Num 60))
       ((sample_state 1000)\<lparr>data := [R2, R1]\<rparr>) \<and>
   useRobotByAlias sample_env (Some (JStr ''a1'')) (Some (JStr ''alice'')) None
       ((sample_state 1000)\<lparr>data := [R2, R1]\<rparr>) =
     useRobot sample_env 1 (Some (JStr ''alice'')) (Some (Num 60))
       ((sample_state 1000)\<lparr>data := [R2, R1]\<rparr>)"
proof -
  have cells: "map_of zero_row ''used_by'' = Some (JStr [])"
    "map_of zero_row ''start_time'' = Some (JNum 0)"
    "map_of zero_row ''end_time'' = Some (JStr [])"
    "''start_time'' \<in> set optional_keys"
    by (simp_all add: zero_row_def optional_keys_def)
  have r: "toRobotData zero_row = R1"
    by (simp add: zero_row_def toRobotData_def R1_def optional_keys_def or_undefined_def)
  have f: "find_ref (\<lambda>robot. strict_eq (robot_prop robot ''id'') (Some (JStr ''R1''))) [R2, R1] = Some 1"
    "find_ref (\<lambda>robot. strict_eq (robot_prop robot ''alias'') (Some (JStr ''a1''))) [R2, R1] = Some 1"
    by (simp_all add: find_ref_Some R1_def R2_def strict_eq_def robot_prop_def)
  have p: "pickFreeRobot (Some (JStr ''arm'')) [R2, R1] = Some 1"
    by (simp add: pickFreeRobot_find_ref find_ref_Some R1_def R2_def strict_eq_def robot_prop_def)
  have u: "usage_line sample_env R1 = ''[arm] R1(a1) is not used''"
    by code_simp
  show ?thesis
    using cells r f p u
      toRobotData_falsy_cells_absent [where rw = zero_row and k = "''start_time''" and v = "JNum 0"
        and s = "(sample_state 1000)\<lparr>data := [R2, R1]\<rparr>" and i = 1 and e = sample_env
        and ident = "Some (JStr ''R1'')" and user = "Some (JStr ''alice'')" and durationMin = None
        and ty = "Some (JStr ''arm'')"]
      toRobotData_falsy_cells_absent [where rw = zero_row
        and s = "(sample_state 1000)\<lparr>data := [R2, R1]\<rparr>" and i = 1 and e = sample_env
        and user = "Some (JStr ''alice'')" and durationMin = None, THEN conjunct2, THEN conjunct2,
        THEN conjunct2, THEN conjunct2, THEN mp, THEN conjunct2, THEN conjunct2, THEN conjunct2,
        THEN conjunct2, of "Some (JStr ''a1'')"]
    by (simp add: sample_state_def default_duration)
qed

section \<open>Fully free or fully reserved\<close>

text \<open>
  C8 (amended). The invariant that \<^verbatim>\<open>used_by\<close> is set exactly when \<^verbatim>\<open>start_time\<close> and
  \<^verbatim>\<open>end_time\<close> both are: the parse step gives a record with the invariant exactly when
  the row's three optional cells have it (each cell is made absent on its own, when it is
  falsy); \<^verbatim>\<open>checkAndClearExpiredRobots\<close> preserves it, clearing the three fields together;
  a successful \<^verbatim>\<open>useRobot\<close> sets the three fields together and preserves it when the user
  is a non-empty value and the start and end times it computes are non-zero numbers.
\<close>

theorem reservation_invariant_steps:
  "(reservation_invariant (toRobotData rw) \<longleftrightarrow>
      (truthy (map_of rw ''used_by'') \<longleftrightarrow>
       truthy (map_of rw ''start_time'') \<and> truthy (map_of rw ''end_time''))) \<and>
   ((\<forall>r\<in>set (data s). reservation_invariant r) \<longrightarrow>
      (\<forall>r\<in>set (data (snd (checkAndClearExpiredRobots e s))). reservation_invariant r)) \<and>
   ((\<forall>r\<in>set (data s). reservation_invariant r) \<and>
    useRobot e robot user durationMin s = Inr s' \<and>
    fst (makeDurationTime e durationMin s) = (startTime, endTime) \<and>
    truthy user \<and> truthy (Some startTime) \<and> truthy (Some endTime) \<longrightarrow>
      (\<forall>r\<in>set (data s'). reservation_invariant r) \<and>
      (robot < length (data s) \<longrightarrow>
         used_by (data s' ! robot) = user \<and> start_time (data s' ! robot) = Some startTime \<and>
         end_time (data s' ! robot) = Some endTime))"
proof (intro conjI impI)
  show "reservation_invariant (toRobotData rw) \<longleftrightarrow>
      (truthy (map_of rw ''used_by'') \<longleftrightarrow>
       truthy (map_of rw ''start_time'') \<and> truthy (map_of rw ''end_time''))"
    by (rule reservation_invariant_toRobotData)
next
  assume "\<forall>r\<in>set (data s). reservation_invariant r"
  then show "\<forall>r\<in>set (data (snd (checkAndClearExpiredRobots e s))). reservation_invariant r"
    by (auto simp: checkAndClearExpiredRobots_eq reservation_invariant_clear_one)
next
  assume a: "(\<forall>r\<in>set (data s). reservation_invariant r) \<and>
    useRobot e robot user durationMin s = Inr s' \<and>
    fst (makeDurationTime e durationMin s) = (startTime, endTime) \<and>
    truthy user \<and> truthy (Some startTime) \<and> truthy (Some endTime)"
  then have d: "data s' = (data s)[robot := (data s ! robot)
           \<lparr>used_by := user, start_time := Some startTime, end_time := Some endTime\<rparr>]"
    using useRobot_data by blast
  show "\<forall>r\<in>set (data s'). reservation_invariant r"
  proof
    fix r assume "r \<in> set (data s')"
    then have "r \<in> set (data s) \<or>
       r = (data s ! robot)\<lparr>used_by := user, start_time := Some startTime, end_time := Some endTime\<rparr>"
      unfolding d using set_update_subset_insert by fastforce
    with a show "reservation_invariant r"
      by (auto simp: reservation_invariant_def)
  qed
  show "used_by (data s' ! robot) = user" and "start_time (data s' ! robot) = Some startTime"
    and "end_time (data s' ! robot) = Some endTime" if "robot < length (data s)"
    using that by (simp_all add: d)
qed

text \<open>
  The invariant holds of the sample robots, after the expiry pass at the time 2001, and
  after \<^verbatim>\<open>alice\<close> reserves \<^verbatim>\<open>R1\<close> for 30 minutes at the time 1000.
\<close>

theorem reservation_invariant_steps_witness:
  "list_all reservation_invariant [R1, R2] \<and>
   list_all reservation_invariant (data (snd (checkAndClearExpiredRobots sample_env
       ((sample_state 2001)\<lparr>data := [R1, R2]\<rparr>)))) \<and>
   fst (makeDurationTime sample_env (Some (Num 30)) ((sample_state 1000)\<lparr>data := [R1, R2]\<rparr>)) =
     (JNum 1000, JNum 1801000) \<and>
   \<not> isl (useRobot sample_env 0 (Some (JStr ''alice'')) (Some (Num 30))
        ((sample_state 1000)\<lparr>data := [R1, R2]\<rparr>)) \<and>
   list_all reservation_invariant
     (data (projr (useRobot sample_env 0 (Some (JStr ''alice'')) (Some (Num 30))
        ((sample_state 1000)\<lparr>data := [R1, R2]\<rparr>)))) \<and>
   truthy (map_of zero_row ''used_by'') = (truthy (map_of zero_row ''start_time'') \<and>
     truthy (map_of zero_row ''end_time'')) \<and>
   reservation_invariant (toRobotData zero_row)"
proof -
  define s0 where "s0 = (sample_state 1000)\<lparr>data := [R1, R2]\<rparr>"
  define s1 where "s1 = (sample_state 2001)\<lparr>data := [R1, R2]\<rparr>"
  define res where "res = useRobot sample_env 0 (Some (JStr ''alice'')) (Some (Num 30)) s0"
  have inv: "\<forall>r\<in>set (data s0). reservation_invariant r" "\<forall>r\<in>set (data s1). reservation_invariant r"
    by (simp_all add: s0_def s1_def sample_state_def R1_def R2_def reservation_invariant_def)
  have m: "fst (makeDurationTime sample_env (Some (Num 30)) s0) = (JNum 1000, JNum 1801000)"
    unfolding s0_def by code_simp
  have "\<not> isl res"
    unfolding res_def s0_def by code_simp
  then have u: "res = Inr (projr res)"
    by simp
  have z: "truthy (map_of zero_row ''used_by'') = (truthy (map_of zero_row ''start_time'') \<and>
     truthy (map_of zero_row ''end_time''))"
    by (simp add: zero_row_def)
  have A: "reservation_invariant (toRobotData zero_row)"
    using reservation_invariant_steps [where rw = zero_row] z by blast
  have B: "\<forall>r\<in>set (data (snd (checkAndClearExpiredRobots sample_env s1))). reservation_invariant r"
    using reservation_invariant_steps [where s = s1 and e = sample_env] inv(2) by blast
  have t: "truthy (Some (JStr ''alice''))" "truthy (Some (JNum 1000))" "truthy (Some (JNum 1801000))"
    by simp_all
  have C: "\<forall>r\<in>set (data (projr res)). reservation_invariant r"
    using reservation_invariant_steps [where s = s0 and e = sample_env and robot = 0
        and user = "Some (JStr ''alice'')" and durationMin = "Some (Num 30)"
        and startTime = "JNum 1000" and endTime = "JNum 1801000" and s' = "projr res"]
      inv(1) m u t unfolding res_def by blast
  show ?thesis
    using A B C m z inv(1) \<open>\<not> isl res\<close>
    unfolding list_all_iff res_def s0_def s1_def by (simp add: sample_state_def)
qed

text \<open>
  C8 as stated fails for a reservation without a user or with the empty string as user:
  the command lines \<^verbatim>\<open>use_robot_by_id R1\<close> and \<^verbatim>\<open>use_robot_by_id R1 ""\<close> load two records
  that have the invariant and leave \<^verbatim>\<open>R1\<close> with both times set and \<^verbatim>\<open>used_by\<close> absent,
  or the empty string.
\<close>

theorem reserve_without_user_counterexample:
  "map toRobotData sample_rows = [R1, R2] \<and>
   reservation_invariant R1 \<and> reservation_invariant R2 \<and>
   \<not> isl (main sample_env [''node'', ''robot_manager'', ''use_robot_by_id'', ''R1''] (sample_state 1000)) \<and>
   used_by (data (projr (main sample_env
       [''node'', ''robot_manager'', ''use_robot_by_id'', ''R1''] (sample_state 1000))) ! 0) = None \<and>
   start_time (data (projr (main sample_env
       [''node'', ''robot_manager'', ''use_robot_by_id'', ''R1''] (sample_state 1000))) ! 0) =
     Some (JNum 1000) \<and>
   end_time (data (projr (main sample_env
       [''node'', ''robot_manager'', ''use_robot_by_id'', ''R1''] (sample_state 1000))) ! 0) =
     Some (JNum 3601000) \<and>
   \<not> reservation_invariant (data (projr (main sample_env
       [''node'', ''robot_manager'', ''use_robot_by_id'', ''R1''] (sample_state 1000))) ! 0) \<and>
   \<not> isl (main sample_env [''node'', ''robot_manager'', ''use_robot_by_id'', ''R1'', []]
            (sample_state 1000)) \<and>
   used_by (data (projr (main sample_env
       [''node'', ''robot_manager'', ''use_robot_by_id'', ''R1'', []] (sample_state 1000))) ! 0) =
     Some (JStr []) \<and>
   \<not> reservation_invariant (data (projr (main sample_env
       [''node'', ''robot_manager'', ''use_robot_by_id'', ''R1'', []] (sample_state 1000))) ! 0)"
  by code_simp

section \<open>Errors\<close>

text \<open>
  C9 (amended). A command that is not one of the five makes \<^verbatim>\<open>main\<close> end abnormally:
  with the error \<^verbatim>\<open>unavailable function name\<close> when \<^verbatim>\<open>loadData\<close>, which runs before the
  command is looked at, succeeds, and with the error of \<^verbatim>\<open>loadData\<close> otherwise. An unknown
  id, alias or type, an already reserved robot and the absence of a free robot are printed
  messages: the operation returns normally, with the state as it was but for the line
  printed.
\<close>

theorem unknown_command_throws_others_print:
  "(arg_at argv 2 \<notin> Some ` set commands \<longrightarrow>
      isl (main e argv s) \<and>
      main e argv s =
        (case loadData e (s\<lparr>data := []\<rparr>) of
           Inl err \<Rightarrow> Inl err
         | Inr s1 \<Rightarrow> Inl (Error ''unavailable function name''))) \<and>
   (find_ref (\<lambda>robot. strict_eq (robot_prop robot ''id'') ident) (data s) = None \<longrightarrow>
      useRobotById e ident user durationMin s =
        Inr (s\<lparr>stdout := stdout s @ [''Can not find robot id '' @ to_string ident]\<rparr>)) \<and>
   (find_ref (\<lambda>robot. strict_eq (robot_prop robot ''alias'') aliasName) (data s) = None \<longrightarrow>
      useRobotByAlias e aliasName user durationMin s =
        Inr (s\<lparr>stdout := stdout s @ [''Can not find robot alias '' @ to_string aliasName]\<rparr>)) \<and>
   (pickRobotsByType ty (data s) = [] \<longrightarrow>
      printRobotsByType e ty s =
        s\<lparr>stdout := stdout s @
             [''unavailable type: ('' @ to_string ty @ '') from ['' @
              join '','' (map join_item (getAllRobotTypes (data s))) @ '']'']\<rparr>) \<and>
   (find_ref (\<lambda>robot. strict_eq (robot_prop robot ''id'') ident) (data s) = Some i \<and>
    truthy (used_by (data s ! i)) \<longrightarrow>
      useRobotById e ident user durationMin s =
        Inr (s\<lparr>stdout := stdout s @ [usage_line e (data s ! i)]\<rparr>)) \<and>
   (find_ref (\<lambda>robot. strict_eq (robot_prop robot ''alias'') aliasName) (data s) = Some j \<and>
    truthy (used_by (data s ! j)) \<longrightarrow>
      useRobotByAlias e aliasName user durationMin s =
        Inr (s\<lparr>stdout := stdout s @ [usage_line e (data s ! j)]\<rparr>)) \<and>
   (pickFreeRobot ty (data s) = None \<longrightarrow>
      useRobotByType e ty user durationMin s =
        Inr (s\<lparr>stdout := stdout s @ [''availableRobot is not found'']\<rparr>))"
proof (intro conjI impI)
  assume a: "arg_at argv 2 \<notin> Some ` set commands"
  show "main e argv s =
        (case loadData e (s\<lparr>data := []\<rparr>) of
           Inl err \<Rightarrow> Inl err
         | Inr s1 \<Rightarrow> Inl (Error ''unavailable function name''))"
    using a by (rule main_default)
  then show "isl (main e argv s)"
    by (simp split: sum.splits)
qed (simp_all add: useRobotById_def useRobotByAlias_def useRobotByType_def printRobotsByType_def
    printRobotUsageMessage_def printMessage_def)

text \<open>
  The command \<^verbatim>\<open>fly\<close>, the id \<^verbatim>\<open>R9\<close>, the alias \<^verbatim>\<open>a9\<close> and the type \<^verbatim>\<open>drone\<close> are unknown,
  and \<^verbatim>\<open>R2\<close> is reserved.
\<close>

theorem unknown_command_throws_others_print_witness:
  "arg_at [''node'', ''robot_manager'', ''fly''] 2 = Some ''fly'' \<and> ''fly'' \<notin> set commands \<and>
   main sample_env [''node'', ''robot_manager'', ''fly''] (sample_state 1000) =
     Inl (Error ''unavailable function name'') \<and>
   find_ref (\<lambda>robot. strict_eq (robot_prop robot ''id'') (Some (JStr ''R9''))) [R1, R2] = None \<and>
   useRobotById sample_env (Some (JStr ''R9'')) (Some (JStr ''alice'')) None
       ((sample_state 1000)\<lparr>data := [R1, R2]\<rparr>) =
     Inr ((sample_state 1000)\<lparr>data := [R1, R2], stdout := [''Can not find robot id R9'']\<rparr>) \<and>
   find_ref (\<lambda>robot. strict_eq (robot_prop robot ''alias'') (Some (JStr ''a9''))) [R1, R2] = None \<and>
   useRobotByAlias sample_env (Some (JStr ''a9'')) (Some (JStr ''alice'')) None
       ((sample_state 1000)\<lparr>data := [R1, R2]\<rparr>) =
     Inr ((sample_state 1000)\<lparr>data := [R1, R2], stdout := [''Can not find robot alias a9'']\<rparr>) \<and>
   pickRobotsByType (Some (JStr ''drone'')) [R1, R2] = [] \<and>
   printRobotsByType sample_env (Some (JStr ''drone'')) ((sample_state 1000)\<lparr>data := [R1, R2]\<rparr>) =
     (sample_state 1000)\<lparr>data := [R1, R2], stdout := [''unavailable type: (drone) from [arm]'']\<rparr> \<and>
   find_ref (\<lambda>robot. strict_eq (robot_prop robot ''id'') (Some (JStr ''R2''))) [R1, R2] = Some 1 \<and>
   find_ref (\<lambda>robot. strict_eq (robot_prop robot ''alias'') (Some (JStr ''a2''))) [R1, R2] = Some 1 \<and>
   truthy (used_by ([R1, R2] ! 1)) \<and>
   useRobotById sample_env (Some (JStr ''R2'')) (Some (JStr ''alice'')) None
       ((sample_state 1000)\<lparr>data := [R1, R2]\<rparr>) =
     Inr ((sample_state 1000)\<lparr>data := [R1, R2], stdout := [usage_line sample_env R2]\<rparr>) \<and>
   useRobotByAlias sample_env (Some (JStr ''a2'')) (Some (JStr ''alice'')) None
       ((sample_state 1000)\<lparr>data := [R1, R2]\<rparr>) =
     Inr ((sample_state 1000)\<lparr>data := [R1, R2], stdout := [usage_line sample_env R2]\<rparr>) \<and>
   pickFreeRobot (Some (JStr ''drone'')) [R1, R2] = None \<and>
   useRobotByType sample_env (Some (JStr ''drone'')) (Some (JStr ''alice'')) None
       ((sample_state 1000)\<lparr>data := [R1, R2]\<rparr>) =
     Inr ((sample_state 1000)\<lparr>data := [R1, R2], stdout := [''availableRobot is not found'']\<rparr>)"
proof -
  define s0 where "s0 = (sample_state 1000)\<lparr>data := [R1, R2]\<rparr>"
  have d: "data s0 = [R1, R2]" "stdout s0 = []"
    by (simp_all add: s0_def sample_state_def)
  have c: "arg_at [''node'', ''robot_manager'', ''fly''] 2 = Some ''fly''" "''fly'' \<notin> set commands"
    by (simp_all add: arg_at_def commands_def)
  then have c': "arg_at [''node'', ''robot_manager'', ''fly''] 2 \<notin> Some ` set commands"
    by auto
  have l: "loadData sample_env ((sample_state 1000)\<lparr>data := []\<rparr>) = Inr (s0\<lparr>ticks := 1\<rparr>)"
    by (simp add: loadData_def getRobotData_def parseRobotData_def sample_parse
        checkAndClearExpiredRobots_eq s0_def sample_state_def sample_env_def clear_one_def
        R1_def R2_def expired_def TimeClip_def)
  have f: "find_ref (\<lambda>robot. strict_eq (robot_prop robot ''id'') (Some (JStr ''R9''))) [R1, R2] = None"
    "find_ref (\<lambda>robot. strict_eq (robot_prop robot ''alias'') (Some (JStr ''a9''))) [R1, R2] = None"
    by (simp_all add: find_ref_None R1_def R2_def strict_eq_def robot_prop_def)
  have p: "pickRobotsByType (Some (JStr ''drone'')) [R1, R2] = []"
    by code_simp
  have g: "find_ref (\<lambda>robot. strict_eq (robot_prop robot ''id'') (Some (JStr ''R2''))) [R1, R2] = Some 1"
    "find_ref (\<lambda>robot. strict_eq (robot_prop robot ''alias'') (Some (JStr ''a2''))) [R1, R2] = Some 1"
    "truthy (used_by ([R1, R2] ! 1))"
    by (simp_all add: find_ref_Some R1_def R2_def strict_eq_def robot_prop_def)
  have q: "pickFreeRobot (Some (JStr ''drone'')) [R1, R2] = None"
    by (simp add: pickFreeRobot_find_ref find_ref_None R1_def R2_def strict_eq_def robot_prop_def)
  have t: "getAllRobotTypes [R1, R2] = [Some (JStr ''arm'')]"
    by code_simp
  note T = unknown_command_throws_others_print [where argv = "[''node'', ''robot_manager'', ''fly'']"
      and e = sample_env and s = "sample_state 1000"]
  note U = unknown_command_throws_others_print [where e = sample_env and s = s0
      and ident = "Some (JStr ''R9'')" and aliasName = "Some (JStr ''a9'')"
      and user = "Some (JStr ''alice'')" and durationMin = None and ty = "Some (JStr ''drone'')"]
  have m: "main sample_env [''node'', ''robot_manager'', ''fly''] (sample_state 1000) =
     Inl (Error ''unavailable function name'')"
    using T c' l by simp
  note V = unknown_command_throws_others_print [where e = sample_env and s = s0
      and ident = "Some (JStr ''R2'')" and aliasName = "Some (JStr ''a2'')" and i = 1 and j = 1
      and user = "Some (JStr ''alice'')" and durationMin = None and ty = "Some (JStr ''drone'')"]
  have r: "[R1, R2] ! 1 = R2"
    by simp
  show ?thesis
    using c m f p t g q U V unfolding s0_def [symmetric]
    by (simp add: d r join_item_def)
qed

text \<open>
  C9 as stated fails when the storage cannot be read: the unknown command \<^verbatim>\<open>fly\<close> then
  ends with the read error, not with \<^verbatim>\<open>unavailable function name\<close>.
\<close>

theorem unknown_command_unreadable_storage_counterexample:
  "arg_at [''node'', ''robot_manager'', ''fly''] 2 = Some ''fly'' \<and> ''fly'' \<notin> set commands \<and>
   main sample_env [''node'', ''robot_manager'', ''fly''] ((sample_state 1000)\<lparr>storage := None\<rparr>) =
     Inl ReadError \<and>
   ReadError \<noteq> Error ''unavailable function name''"
  by (simp add: arg_at_def commands_def main_def loadData_def getRobotData_def sample_state_def)

end
